theory Spec2Isabelle
  imports Complex_Main "HOL-Library.List_Lexorder" "HOL-Library.Product_Lexorder"
    "HOL-Library.Multiset"
begin

section \<open>Python strings\<close>

text \<open>
  A Python \<open>str\<close> is a sequence of Unicode code points, and SQLite's \<open>LENGTH\<close> counts
  the same units, so a string is a list of code points. \<open>u\<close> embeds an ASCII literal.
\<close>

type_synonym ustr = "nat list"

definition u :: "string \<Rightarrow> ustr" where
  "u s = map of_char s"

text \<open>\<open>str.isspace\<close> for one code point: the white space that \<open>split()\<close> and \<open>strip()\<close> use.\<close>

definition isspace :: "nat \<Rightarrow> bool" where
  "isspace c \<longleftrightarrow>
     (9 \<le> c \<and> c \<le> 13) \<or> (28 \<le> c \<and> c \<le> 32) \<or> c = 133 \<or> c = 160 \<or> c = 5760 \<or>
     (8192 \<le> c \<and> c \<le> 8202) \<or> c = 8232 \<or> c = 8233 \<or> c = 8239 \<or> c = 8287 \<or> c = 12288"

text \<open>
  The exceptions that the sources raise or catch, as values. A function that can raise
  returns \<open>Inl\<close> of the exception.
\<close>

datatype py_error = KeyError | AttributeError | JSONDecodeError | ValueError | TypeError
  | RecursionError | OverflowError

definition bind_err :: "py_error + 'a \<Rightarrow> ('a \<Rightarrow> py_error + 'b) \<Rightarrow> py_error + 'b" where
  "bind_err m f = (case m of Inl e \<Rightarrow> Inl e | Inr x \<Rightarrow> f x)"

text \<open>
  \<open>c.isdigit()\<close> and \<open>int(c)\<close> for one code point. A character is no digit, or a decimal
  digit with its value, or a digit of another kind (a superscript, a circled digit), on
  which \<open>isdigit\<close> is true and \<open>int\<close> raises \<open>ValueError\<close>. Below U+0080 only \<open>0\<close> to \<open>9\<close> are
  digits; for the other code points the Unicode character database decides, a parameter
  \<open>ucd\<close> of the model.
\<close>

datatype digit_class = NotDigit | DecimalDigit int | OtherDigit

definition digit_class_of :: "(nat \<Rightarrow> digit_class) \<Rightarrow> nat \<Rightarrow> digit_class" where
  "digit_class_of ucd c =
     (if c < 128 then (if 48 \<le> c \<and> c \<le> 57 then DecimalDigit (int c - 48) else NotDigit)
      else ucd c)"

definition strip :: "ustr \<Rightarrow> ustr" where
  "strip s = rev (dropWhile isspace (rev (dropWhile isspace s)))"

text \<open>\<open>s.split()\<close>: the maximal runs of non-space code points; \<open>cur\<close> is the run being read.\<close>

fun split_from :: "ustr \<Rightarrow> ustr \<Rightarrow> ustr list" where
  "split_from cur [] = (if cur = [] then [] else [cur])"
| "split_from cur (c # cs) =
     (if isspace c then (if cur = [] then split_from [] cs else cur # split_from [] cs)
      else split_from (cur @ [c]) cs)"

definition split :: "ustr \<Rightarrow> ustr list" where
  "split s = split_from [] s"

fun join :: "ustr \<Rightarrow> ustr list \<Rightarrow> ustr" where
  "join sep [] = []"
| "join sep [x] = x"
| "join sep (x # y # ys) = x @ sep @ join sep (y # ys)"

text \<open>\<open>s.replace(v, m, 1)\<close> for a one-character \<open>v\<close>: the first occurrence only.\<close>

fun replace_first :: "nat \<Rightarrow> nat \<Rightarrow> ustr \<Rightarrow> ustr" where
  "replace_first v m [] = []"
| "replace_first v m (c # cs) = (if c = v then m # cs else c # replace_first v m cs)"

text \<open>\<open>s.find(c)\<close> and \<open>s.rfind(c)\<close> for a one-character \<open>c\<close>: an index, or \<open>-1\<close>.\<close>

fun find_from :: "int \<Rightarrow> nat \<Rightarrow> ustr \<Rightarrow> int" where
  "find_from i c [] = -1"
| "find_from i c (x # xs) = (if x = c then i else find_from (i + 1) c xs)"

definition find_char :: "nat \<Rightarrow> ustr \<Rightarrow> int" where
  "find_char c s = find_from 0 c s"

definition rfind_char :: "nat \<Rightarrow> ustr \<Rightarrow> int" where
  "rfind_char c s =
     (let r = find_from 0 c (rev s) in if r < 0 then -1 else int (length s) - 1 - r)"

text \<open>\<open>s[a:b]\<close> for \<open>0 \<le> a\<close> and \<open>0 \<le> b\<close>, the only slices the sources take by index.\<close>

definition slice :: "int \<Rightarrow> int \<Rightarrow> ustr \<Rightarrow> ustr" where
  "slice a b s = take (nat b - nat a) (drop (nat a) s)"

section \<open>Tone marks (pinyin\_utils.py)\<close>

definition tone_marks :: "(nat \<times> nat list) list" where
  "tone_marks =
    [(97, [97, 257, 225, 462, 224]),
     (101, [101, 275, 233, 283, 232]),
     (105, [105, 299, 237, 464, 236]),
     (111, [111, 333, 243, 466, 242]),
     (117, [117, 363, 250, 468, 249]),
     (252, [252, 470, 472, 474, 476]),
     (65, [65, 256, 193, 461, 192]),
     (69, [69, 274, 201, 282, 200]),
     (73, [73, 298, 205, 463, 204]),
     (79, [79, 332, 211, 465, 210]),
     (85, [85, 362, 218, 467, 217]),
     (220, [220, 469, 471, 473, 475])]"

definition vowels :: "nat list" where
  "vowels = [97, 101, 105, 111, 117, 252, 65, 69, 73, 79, 85, 220]"

text \<open>
  The loop \<open>for v in [...]\<close>: the first listed vowel that occurs in the syllable is marked.
  Every \<open>v\<close> it looks up is a key of \<open>tone_marks\<close> and the tone is between 1 and 4, so
  neither subscript can fail.
\<close>

fun mark_vowel :: "nat list \<Rightarrow> nat \<Rightarrow> ustr \<Rightarrow> ustr" where
  "mark_vowel [] tone clean_word = clean_word"
| "mark_vowel (v # vs) tone clean_word =
     (if v \<in> set clean_word then
        (let v' =
           (if v = 105 \<and> 117 \<in> set clean_word \<and> 97 \<notin> set clean_word
                 \<and> 111 \<notin> set clean_word \<and> 101 \<notin> set clean_word then 117
            else if v = 117 \<and> 105 \<in> set clean_word \<and> 97 \<notin> set clean_word
                 \<and> 111 \<notin> set clean_word \<and> 101 \<notin> set clean_word then 105
            else v)
         in replace_first v' (the (map_of tone_marks v') ! tone) clean_word)
      else mark_vowel vs tone clean_word)"

text \<open>
  One pass of the loop \<open>for word in words\<close>: the word as it is appended, or the exception
  of \<open>int(word[-1])\<close>. A word without tone digit, or with a digit other than 1 to 4, is
  appended as it is.
\<close>

definition convert_word :: "(nat \<Rightarrow> digit_class) \<Rightarrow> ustr \<Rightarrow> py_error + ustr" where
  "convert_word ucd word =
     (if word = [] then Inr word
      else
        (case digit_class_of ucd (last word) of
           NotDigit \<Rightarrow> Inr word
         | OtherDigit \<Rightarrow> Inl ValueError
         | DecimalDigit tone \<Rightarrow>
             if tone < 1 \<or> tone > 4 then Inr word
             else Inr (mark_vowel vowels (nat tone) (butlast word))))"

fun convert_words :: "(nat \<Rightarrow> digit_class) \<Rightarrow> ustr list \<Rightarrow> py_error + ustr list" where
  "convert_words ucd [] = Inr []"
| "convert_words ucd (word # words) =
     bind_err (convert_word ucd word) (\<lambda>converted.
     bind_err (convert_words ucd words) (\<lambda>converted_words. Inr (converted # converted_words)))"

definition convert_pinyin_tone_numbers :: "(nat \<Rightarrow> digit_class) \<Rightarrow> ustr \<Rightarrow> py_error + ustr" where
  "convert_pinyin_tone_numbers ucd pinyin =
     (if pinyin = [] then Inr pinyin
      else bind_err (convert_words ucd (split pinyin)) (\<lambda>converted_words.
             Inr (join (u '' '') converted_words)))"

section \<open>The two stores\<close>

text \<open>
  A row of the table \<open>dictionary\<close> (create\_database.py), with the columns that
  \<open>add_missing_database_columns\<close> adds (\<open>cedict_definitions\<close>, \<open>source\<close>). A nullable column
  is an option, \<open>None\<close> for NULL. The scheduler also reads and writes \<open>examples\<close> and
  \<open>grammar_info\<close>, which no script of the repository creates: whether the table has them is
  recorded with the store, and they are \<open>None\<close> in every row when it has not.
\<close>

record entry =
  id_col :: int
  word :: ustr
  traditional :: "ustr option"
  simplified :: "ustr option"
  pinyin :: "ustr option"
  zhuyin :: "ustr option"
  vi_meaning :: "ustr option"
  en_meaning :: "ustr option"
  part_of_speech :: "ustr option"
  hsk_level :: "int option"
  tocfl_level :: "int option"
  frequency_rank :: "int option"
  hanviet_reading :: "ustr option"
  created_at :: "ustr option"
  updated_at :: "ustr option"
  cedict_definitions :: "ustr option"
  source :: "ustr option"
  examples :: "ustr option"
  grammar_info :: "ustr option"

text \<open>A row of \<open>cedict_entries\<close> (download\_cedict.py); every column is NOT NULL.\<close>

record cedict_entry =
  ce_id :: int
  ce_traditional :: ustr
  ce_simplified :: ustr
  ce_pinyin :: ustr
  ce_english :: ustr
  ce_definitions :: ustr
  ce_created_at :: ustr

section \<open>Completion Reporter (ai\_data\_completion.py)\<close>

text \<open>
  The connection of \<open>ComprehensiveDataCompletion\<close> has the row factory
  \<open>lambda cursor, row: dict(zip([col[0] for col in cursor.description], row))\<close>:
  \<open>fetchone()\<close> returns a dict keyed by the column names. A key is a string or an integer.
\<close>

datatype pykey = KStr ustr | KInt int

definition row_factory :: "ustr list \<Rightarrow> 'v list \<Rightarrow> (pykey \<rightharpoonup> 'v)" where
  "row_factory description row = map_of (rev (zip (map KStr description) row))"

definition getitem :: "(pykey \<rightharpoonup> 'v) \<Rightarrow> pykey \<Rightarrow> py_error + 'v" where
  "getitem d k = (case d k of None \<Rightarrow> Inl KeyError | Some v \<Rightarrow> Inr v)"

text \<open>\<open>SELECT COUNT(*) FROM dictionary WHERE ...\<close> followed by \<open>fetchone()\<close>.\<close>

definition fetch_count :: "(entry \<Rightarrow> bool) \<Rightarrow> entry list \<Rightarrow> (pykey \<rightharpoonup> int)" where
  "fetch_count cond rows = row_factory [u ''COUNT(*)''] [int (length (filter cond rows))]"

text \<open>\<open>col IS NOT NULL AND col != ''\<close>\<close>

definition filled :: "ustr option \<Rightarrow> bool" where
  "filled v \<longleftrightarrow> v \<noteq> None \<and> v \<noteq> Some []"

record statistics =
  total_entries :: int
  with_english :: int
  with_vietnamese :: int
  with_pinyin :: int
  with_zhuyin :: int
  with_hanviet :: int
  english_rate :: real
  vietnamese_rate :: real
  pinyin_rate :: real
  zhuyin_rate :: real
  hanviet_rate :: real

definition get_initial_statistics :: "entry list \<Rightarrow> py_error + statistics" where
  "get_initial_statistics rows =
     bind_err (getitem (fetch_count (\<lambda>r. True) rows) (KInt 0)) (\<lambda>total.
     bind_err (getitem (fetch_count (\<lambda>r. filled (en_meaning r)) rows) (KInt 0)) (\<lambda>with_english'.
     bind_err (getitem (fetch_count (\<lambda>r. filled (vi_meaning r)) rows) (KInt 0)) (\<lambda>with_vietnamese'.
     bind_err (getitem (fetch_count (\<lambda>r. filled (pinyin r)) rows) (KInt 0)) (\<lambda>with_pinyin'.
     bind_err (getitem (fetch_count (\<lambda>r. filled (zhuyin r)) rows) (KInt 0)) (\<lambda>with_zhuyin'.
     bind_err (getitem (fetch_count (\<lambda>r. filled (hanviet_reading r)) rows) (KInt 0)) (\<lambda>with_hanviet'.
     Inr \<lparr> total_entries = total,
           with_english = with_english',
           with_vietnamese = with_vietnamese',
           with_pinyin = with_pinyin',
           with_zhuyin = with_zhuyin',
           with_hanviet = with_hanviet',
           english_rate = (if total > 0 then of_int with_english' / of_int total * 100 else 0),
           vietnamese_rate = (if total > 0 then of_int with_vietnamese' / of_int total * 100 else 0),
           pinyin_rate = (if total > 0 then of_int with_pinyin' / of_int total * 100 else 0),
           zhuyin_rate = (if total > 0 then of_int with_zhuyin' / of_int total * 100 else 0),
           hanviet_rate = (if total > 0 then of_int with_hanviet' / of_int total * 100 else 0) \<rparr>))))))"

text \<open>
  \<open>CEDICTIntegrator.get_main_dict_stats\<close> runs the same kind of query on a temporary
  connection "without custom row factory for COUNT queries": there \<open>fetchone()\<close> is a
  tuple and \<open>[0]\<close> is its first component.
\<close>

record main_stats =
  ms_total_entries :: int
  ms_with_english :: int
  ms_with_vietnamese :: int

definition get_main_dict_stats :: "entry list \<Rightarrow> main_stats" where
  "get_main_dict_stats rows =
     \<lparr> ms_total_entries = int (length rows),
       ms_with_english = int (length (filter (\<lambda>r. filled (en_meaning r)) rows)),
       ms_with_vietnamese = int (length (filter (\<lambda>r. filled (vi_meaning r)) rows)) \<rparr>"

section \<open>What the program does not define\<close>

text \<open>
  A value that \<open>json.loads\<close> returns. Numbers with a fraction or an exponent are left out.
  An object holds each key once.
\<close>

datatype json = JNull | JBool bool | JInt int | JStr ustr | JArr "json list"
  | JObj "(ustr \<times> json) list"

text \<open>Python's truth value of such a value (\<open>if x:\<close>).\<close>

fun truthy :: "json \<Rightarrow> bool" where
  "truthy JNull = False"
| "truthy (JBool b) = b"
| "truthy (JInt n) = (n \<noteq> 0)"
| "truthy (JStr s) = (s \<noteq> [])"
| "truthy (JArr xs) = (xs \<noteq> [])"
| "truthy (JObj kvs) = (kvs \<noteq> [])"

text \<open>The requests that the Enrichment Client sends: the kind, the word and the context
  that the prompt text is built from (the empty string when there is none).\<close>

datatype prompt = PronunciationPrompt ustr | VietnamesePrompt ustr ustr
  | ExamplesPrompt ustr ustr | GrammarPrompt ustr

text \<open>
  The libraries and the outside world, as parameters of the model:
  \<^item> \<open>json_loads\<close>: the parsed value, or the exception that \<open>json.loads\<close> raises:
    \<open>JSONDecodeError\<close> on text that is not JSON, \<open>RecursionError\<close> on brackets nested deeper
    than the interpreter allows;
  \<^item> \<open>json_dumps\<close>: \<open>json.dumps(x, ensure_ascii=False)\<close>;
  \<^item> \<open>post k p n\<close>: the outcome of the \<open>k\<close>-th HTTP request, for the prompt \<open>p\<close> with the token
    budget \<open>n\<close>: the content of the first choice, or \<open>None\<close> for every failure that
    \<open>_call_deepseek_api\<close> catches;
  \<^item> \<open>time k\<close> and \<open>now_isoformat k\<close>: what \<open>time.time()\<close> and
    \<open>datetime.now().isoformat()\<close> return when they are the \<open>k\<close>-th reading of the clock;
  \<^item> \<open>float_sub\<close>: the subtraction of two floats. A float is modelled by the real number
    that it denotes, so comparing two floats is comparing their reals, but the difference
    of two floats is the rounded one that the machine computes.
\<close>

record externals =
  json_loads :: "ustr \<Rightarrow> py_error + json"
  json_dumps :: "json \<Rightarrow> ustr"
  post :: "nat \<Rightarrow> prompt \<Rightarrow> nat \<Rightarrow> ustr option"
  time :: "nat \<Rightarrow> real"
  now_isoformat :: "nat \<Rightarrow> ustr"
  float_sub :: "real \<Rightarrow> real \<Rightarrow> real"

text \<open>
  Binding a Python integer to a \<open>?\<close> of a statement: sqlite3 raises \<open>OverflowError\<close> outside
  the 64-bit range.
\<close>

definition sql_int :: "int \<Rightarrow> py_error + int" where
  "sql_int n = (if - (2 ^ 63) \<le> n \<and> n < 2 ^ 63 then Inr n else Inl OverflowError)"

text \<open>\<open>LIMIT ?\<close> with \<open>n\<close> bound to it: a negative \<open>n\<close> is no limit.\<close>

definition sql_limit :: "int \<Rightarrow> 'a list \<Rightarrow> py_error + 'a list" where
  "sql_limit n xs =
     bind_err (sql_int n) (\<lambda>m. Inr (if m < 0 then xs else take (nat m) xs))"

section \<open>Reconciler (integrate\_cedict.py)\<close>

text \<open>The columns that a patch (the dict \<open>updates\<close>) can name.\<close>

datatype column = Cen_meaning | Cpinyin | Ctraditional | Csimplified | Ccedict_definitions
  | Czhuyin | Chanviet_reading | Cvi_meaning | Cexamples | Cgrammar_info

fun get_column :: "column \<Rightarrow> entry \<Rightarrow> ustr option" where
  "get_column Cen_meaning r = en_meaning r"
| "get_column Cpinyin r = pinyin r"
| "get_column Ctraditional r = traditional r"
| "get_column Csimplified r = simplified r"
| "get_column Ccedict_definitions r = cedict_definitions r"
| "get_column Czhuyin r = zhuyin r"
| "get_column Chanviet_reading r = hanviet_reading r"
| "get_column Cvi_meaning r = vi_meaning r"
| "get_column Cexamples r = examples r"
| "get_column Cgrammar_info r = grammar_info r"

fun set_column :: "column \<Rightarrow> ustr option \<Rightarrow> entry \<Rightarrow> entry" where
  "set_column Cen_meaning v r = r\<lparr>en_meaning := v\<rparr>"
| "set_column Cpinyin v r = r\<lparr>pinyin := v\<rparr>"
| "set_column Ctraditional v r = r\<lparr>traditional := v\<rparr>"
| "set_column Csimplified v r = r\<lparr>simplified := v\<rparr>"
| "set_column Ccedict_definitions v r = r\<lparr>cedict_definitions := v\<rparr>"
| "set_column Czhuyin v r = r\<lparr>zhuyin := v\<rparr>"
| "set_column Chanviet_reading v r = r\<lparr>hanviet_reading := v\<rparr>"
| "set_column Cvi_meaning v r = r\<lparr>vi_meaning := v\<rparr>"
| "set_column Cexamples v r = r\<lparr>examples := v\<rparr>"
| "set_column Cgrammar_info v r = r\<lparr>grammar_info := v\<rparr>"

text \<open>The state of a \<open>CEDICTIntegrator\<close>: the two tables and the number of clock readings.\<close>

record integrator =
  main_db :: "entry list"
  cedict_db :: "cedict_entry list"
  clock_reads :: nat

text \<open>
  \<open>SELECT * FROM cedict_entries WHERE simplified = ? LIMIT 1\<close>, then the same on
  \<open>traditional\<close>: with no ORDER BY the first row in table order is taken.
\<close>

definition lookup_cedict :: "cedict_entry list \<Rightarrow> ustr \<Rightarrow> cedict_entry option" where
  "lookup_cedict cedict chinese_text =
     (case find (\<lambda>c. ce_simplified c = chinese_text) cedict of
        Some c \<Rightarrow> Some c
      | None \<Rightarrow> find (\<lambda>c. ce_traditional c = chinese_text) cedict)"

fun find_matching_entries ::
  "entry list \<Rightarrow> cedict_entry list \<Rightarrow> (entry \<times> cedict_entry) list" where
  "find_matching_entries [] cedict = []"
| "find_matching_entries (main_entry # main_entries) cedict =
     (case lookup_cedict cedict (word main_entry) of
        Some cedict_entry' \<Rightarrow> (main_entry, cedict_entry') # find_matching_entries main_entries cedict
      | None \<Rightarrow> find_matching_entries main_entries cedict)"

text \<open>\<open>not x or x.strip() == ''\<close> on a nullable text column.\<close>

definition blank :: "ustr option \<Rightarrow> bool" where
  "blank v = (case v of None \<Rightarrow> True | Some s \<Rightarrow> s = [] \<or> strip s = [])"

text \<open>
  The patch, or the exception that leaves the method: the \<open>try\<close> around \<open>json.loads\<close> catches
  \<open>JSONDecodeError\<close> and \<open>TypeError\<close> only.
\<close>

definition enhance_entry_with_cedict ::
  "externals \<Rightarrow> entry \<Rightarrow> cedict_entry \<Rightarrow> py_error + (column \<times> ustr) list" where
  "enhance_entry_with_cedict ext main_entry ce =
     (let updates =
        (if blank (en_meaning main_entry) \<and> ce_english ce \<noteq> []
         then [(Cen_meaning, ce_english ce)] else []) @
        (if blank (pinyin main_entry) \<and> ce_pinyin ce \<noteq> []
         then [(Cpinyin, ce_pinyin ce)] else []) @
        (if blank (traditional main_entry) \<and> ce_traditional ce \<noteq> ce_simplified ce
         then [(Ctraditional, ce_traditional ce)] else []) @
        (if blank (simplified main_entry) \<and> ce_simplified ce \<noteq> ce_traditional ce
         then [(Csimplified, ce_simplified ce)] else [])
      in if ce_definitions ce \<noteq> [] then
           (case json_loads ext (ce_definitions ce) of
              Inr definitions \<Rightarrow>
                Inr (if truthy definitions
                     then updates @ [(Ccedict_definitions, ce_definitions ce)] else updates)
            | Inl e \<Rightarrow>
                if e = JSONDecodeError \<or> e = TypeError
                then Inr (updates @ [(Ccedict_definitions, ce_definitions ce)])
                else Inl e)
         else Inr updates)"

text \<open>\<open>UPDATE dictionary SET f1 = ?, ..., updated_at = ? WHERE id = ?\<close>\<close>

definition apply_updates :: "(column \<times> ustr) list \<Rightarrow> entry \<Rightarrow> entry" where
  "apply_updates updates r = fold (\<lambda>(field, val). set_column field (Some val)) updates r"

definition sql_update :: "int \<Rightarrow> (column \<times> ustr) list \<Rightarrow> ustr \<Rightarrow> entry list \<Rightarrow> entry list" where
  "sql_update entry_id updates stamp rows =
     map (\<lambda>r. if id_col r = entry_id then (apply_updates updates r)\<lparr>updated_at := Some stamp\<rparr>
               else r) rows"

text \<open>
  The loop of \<open>update_existing_entries\<close>; the patch is computed from the row as it was
  read by \<open>find_matching_entries\<close>. The state is the table, the clock readings and
  \<open>updated_count\<close>. An exception is caught by \<open>except Exception\<close>: the loop goes on with the
  next pair.
\<close>

fun update_loop ::
  "externals \<Rightarrow> (entry \<times> cedict_entry) list \<Rightarrow> entry list \<times> nat \<times> int
   \<Rightarrow> entry list \<times> nat \<times> int" where
  "update_loop ext [] st = st"
| "update_loop ext ((main_entry, ce) # matches) (rows, ticks, updated_count) =
     (case enhance_entry_with_cedict ext main_entry ce of
        Inl e \<Rightarrow> update_loop ext matches (rows, ticks, updated_count)
      | Inr updates \<Rightarrow>
          if updates \<noteq> [] then
            update_loop ext matches
              (sql_update (id_col main_entry) updates (now_isoformat ext ticks) rows,
               ticks + 1, updated_count + 1)
          else update_loop ext matches (rows, ticks, updated_count))"

definition update_existing_entries ::
  "externals \<Rightarrow> (entry \<times> cedict_entry) list \<Rightarrow> integrator \<Rightarrow> integrator \<times> int" where
  "update_existing_entries ext matches self =
     (case update_loop ext matches (main_db self, clock_reads self, 0) of
        (rows, ticks, updated_count) \<Rightarrow>
          (self\<lparr>main_db := rows, clock_reads := ticks\<rparr>, updated_count))"

text \<open>
  \<open>SELECT * FROM cedict_entries ORDER BY LENGTH(simplified), simplified LIMIT ?\<close>: the
  binary collation orders strings by code points; rows with the same \<open>simplified\<close> stay in
  table order.
\<close>

definition select_cedict_ordered ::
  "int \<Rightarrow> cedict_entry list \<Rightarrow> py_error + cedict_entry list" where
  "select_cedict_ordered n cedict =
     sql_limit n (sort_key (\<lambda>c. (length (ce_simplified c), ce_simplified c)) cedict)"

text \<open>
  The filter loop, on \<open>entry[1]\<close> and \<open>entry[2]\<close>: it stops as soon as
  \<open>len(new_entries) >= limit\<close> after an append.
\<close>

fun filter_new ::
  "int \<Rightarrow> ustr set \<Rightarrow> cedict_entry list \<Rightarrow> cedict_entry list \<Rightarrow> cedict_entry list" where
  "filter_new limit existing_words [] new_entries = new_entries"
| "filter_new limit existing_words (e # es) new_entries =
     (if ce_traditional e \<notin> existing_words \<and> ce_simplified e \<notin> existing_words then
        (if int (length (new_entries @ [e])) \<ge> limit then new_entries @ [e]
         else filter_new limit existing_words es (new_entries @ [e]))
      else filter_new limit existing_words es new_entries)"

text \<open>
  The entries selected for insertion. \<open>existing_words\<close> is read once, before the loop, and
  is not extended while rows are added.
\<close>

definition new_cedict_entries ::
  "int \<Rightarrow> entry list \<Rightarrow> cedict_entry list \<Rightarrow> py_error + cedict_entry list" where
  "new_cedict_entries limit rows cedict =
     bind_err (select_cedict_ordered (limit * 3) cedict) (\<lambda>all_cedict_entries.
       Inr (filter_new limit (set (map word rows)) all_cedict_entries []))"

text \<open>\<open>id INTEGER PRIMARY KEY AUTOINCREMENT\<close>: one more than the largest id of the table.\<close>

definition next_id :: "entry list \<Rightarrow> int" where
  "next_id rows = fold max (map id_col rows) 0 + 1"

text \<open>
  The row that the INSERT adds. \<open>add_new_cedict_entries\<close> reads the source row by position,
  from \<open>SELECT *\<close> on a connection without row factory: in the column order of the table,
  \<open>entry[1]\<close> is \<open>traditional\<close> and \<open>entry[2]\<close> is \<open>simplified\<close>. The INSERT takes \<open>entry[1]\<close> for
  \<open>word\<close> and for the column \<open>simplified\<close>, and \<open>entry[2]\<close>, when it differs, for the column
  \<open>traditional\<close>.
\<close>

definition new_row :: "int \<Rightarrow> ustr \<Rightarrow> ustr \<Rightarrow> cedict_entry \<Rightarrow> entry" where
  "new_row i created updated e =
     \<lparr> id_col = i,
       word = ce_traditional e,
       traditional = (if ce_simplified e \<noteq> ce_traditional e then Some (ce_simplified e) else None),
       simplified = Some (ce_traditional e),
       pinyin = Some (ce_pinyin e),
       zhuyin = None,
       vi_meaning = Some [],
       en_meaning = Some (ce_english e),
       part_of_speech = None,
       hsk_level = None,
       tocfl_level = None,
       frequency_rank = None,
       hanviet_reading = None,
       created_at = Some created,
       updated_at = Some updated,
       cedict_definitions = Some (ce_definitions e),
       source = Some (u ''CC-CEDICT''),
       examples = None,
       grammar_info = None \<rparr>"

text \<open>
  The insert loop. It parses the definitions first: \<open>JSONDecodeError\<close> and \<open>TypeError\<close> are
  caught there and the row is inserted all the same (the parsed value is not used); any
  other exception reaches \<open>except Exception\<close> and the row is skipped. No constraint of the
  table can reject the row.
\<close>

definition parses_or_caught :: "externals \<Rightarrow> cedict_entry \<Rightarrow> bool" where
  "parses_or_caught ext e =
     (case json_loads ext (ce_definitions e) of
        Inr definitions \<Rightarrow> True
      | Inl err \<Rightarrow> err = JSONDecodeError \<or> err = TypeError)"

fun insert_loop ::
  "externals \<Rightarrow> cedict_entry list \<Rightarrow> entry list \<times> nat \<times> int \<Rightarrow> entry list \<times> nat \<times> int" where
  "insert_loop ext [] st = st"
| "insert_loop ext (e # es) (rows, ticks, added_count) =
     (if parses_or_caught ext e then
        insert_loop ext es
          (rows @ [new_row (next_id rows) (now_isoformat ext ticks)
                     (now_isoformat ext (ticks + 1)) e],
           ticks + 2, added_count + 1)
      else insert_loop ext es (rows, ticks, added_count))"

text \<open>An exception of the SELECT leaves \<open>add_new_cedict_entries\<close> before any row is added.\<close>

definition add_new_cedict_entries ::
  "externals \<Rightarrow> int \<Rightarrow> integrator \<Rightarrow> (py_error + int) \<times> integrator" where
  "add_new_cedict_entries ext limit self =
     (case new_cedict_entries limit (main_db self) (cedict_db self) of
        Inl e \<Rightarrow> (Inl e, self)
      | Inr new_entries \<Rightarrow>
          (case insert_loop ext new_entries (main_db self, clock_reads self, 0) of
             (rows, ticks, added_count) \<Rightarrow>
               (Inr added_count, self\<lparr>main_db := rows, clock_reads := ticks\<rparr>)))"

record results =
  matched_entries :: int
  updated_entries :: int
  added_entries :: int
  total_before :: int
  total_after :: int

text \<open>
  \<open>integrate_full\<close>. The migration \<open>add_missing_database_columns\<close> changes no row: the
  columns that it adds are NULL, which is what the row type holds for them already. An
  exception of the insert phase leaves the method after the update phase was committed.
\<close>

definition integrate_full ::
  "externals \<Rightarrow> int \<Rightarrow> integrator \<Rightarrow> (py_error + results) \<times> integrator" where
  "integrate_full ext add_new_limit self =
     (let main_stats' = get_main_dict_stats (main_db self);
          matches = find_matching_entries (main_db self) (cedict_db self);
          (self1, updated_count) = update_existing_entries ext matches self
      in case add_new_cedict_entries ext add_new_limit self1 of
           (Inl e, self2) \<Rightarrow> (Inl e, self2)
         | (Inr added_count, self2) \<Rightarrow>
             (let final_stats = get_main_dict_stats (main_db self2)
              in (Inr \<lparr> matched_entries = int (length matches),
                        updated_entries = updated_count,
                        added_entries = added_count,
                        total_before = ms_total_entries main_stats',
                        total_after = ms_total_entries final_stats \<rparr>,
                  self2)))"

section \<open>Enrichment Client (deepseek\_enhancer.py)\<close>

text \<open>
  The state of a \<open>DeepSeekEnhancer\<close>: the table \<open>dictionary\<close> behind \<open>conn\<close> and whether it
  has the columns \<open>examples\<close> and \<open>grammar_info\<close>, \<open>last_request_time\<close>, the number of clock
  readings and of requests so far, and the durations passed to \<open>time.sleep\<close>, oldest first.
\<close>

record enhancer =
  conn :: "entry list"
  has_examples :: bool
  has_grammar_info :: bool
  last_request_time :: real
  readings :: nat
  requests :: nat
  sleeps :: "real list"

definition request_delay :: real where
  "request_delay = 1"

text \<open>
  \<open>_rate_limit\<close>: one reading of the clock before the test, one after the sleep, which is
  recorded as the time of this request.
\<close>

definition rate_limit :: "externals \<Rightarrow> enhancer \<Rightarrow> enhancer" where
  "rate_limit ext self =
     (let current_time = time ext (readings self);
          time_since_last = float_sub ext current_time (last_request_time self);
          self1 = (if time_since_last < request_delay
                   then self\<lparr>sleeps := sleeps self @ [float_sub ext request_delay time_since_last]\<rparr>
                   else self)
      in self1\<lparr>last_request_time := time ext (readings self + 1),
               readings := readings self + 2\<rparr>)"

text \<open>Every exception of the request is caught there and gives \<open>None\<close>.\<close>

definition call_deepseek_api ::
  "externals \<Rightarrow> prompt \<Rightarrow> nat \<Rightarrow> enhancer \<Rightarrow> ustr option \<times> enhancer" where
  "call_deepseek_api ext p max_tokens self =
     (let self1 = rate_limit ext self
      in (map_option strip (post ext (requests self1) p max_tokens),
          self1\<lparr>requests := requests self1 + 1\<rparr>))"

text \<open>
  The block that \<open>enhance_missing_pronunciation\<close> and \<open>enhance_missing_grammar_info\<close>
  both run on a non-empty response: from the first \<open>{\<close> to the last \<open>}\<close>. The \<open>except\<close> clause
  names \<open>JSONDecodeError\<close> and \<open>ValueError\<close>; any other exception of \<open>json.loads\<close> leaves the
  method.
\<close>

definition extract_object :: "externals \<Rightarrow> ustr \<Rightarrow> py_error + json" where
  "extract_object ext response =
     (let json_start = find_char 123 response;
          json_end = rfind_char 125 response + 1
      in if json_start \<ge> 0 \<and> json_end > json_start then
           (case json_loads ext (slice json_start json_end response) of
              Inr v \<Rightarrow> Inr v
            | Inl e \<Rightarrow> if e = JSONDecodeError \<or> e = ValueError then Inr (JObj []) else Inl e)
         else Inr (JObj []))"

text \<open>The block of \<open>enhance_missing_examples\<close>: from the first \<open>[\<close> to the last \<open>]\<close>.\<close>

definition extract_array :: "externals \<Rightarrow> ustr \<Rightarrow> py_error + json" where
  "extract_array ext response =
     (let json_start = find_char 91 response;
          json_end = rfind_char 93 response + 1
      in if json_start \<ge> 0 \<and> json_end > json_start then
           (case json_loads ext (slice json_start json_end response) of
              Inr (JArr xs) \<Rightarrow> Inr (JArr xs)
            | Inr v \<Rightarrow> Inr (JArr [])
            | Inl e \<Rightarrow> if e = JSONDecodeError \<or> e = ValueError then Inr (JArr []) else Inl e)
         else Inr (JArr []))"

definition enhance_missing_pronunciation ::
  "externals \<Rightarrow> ustr \<Rightarrow> enhancer \<Rightarrow> (py_error + json) \<times> enhancer" where
  "enhance_missing_pronunciation ext chinese_text self =
     (case call_deepseek_api ext (PronunciationPrompt chinese_text) 1000 self of
        (None, self') \<Rightarrow> (Inr (JObj []), self')
      | (Some response, self') \<Rightarrow>
          if response = [] then (Inr (JObj []), self') else (extract_object ext response, self'))"

definition enhance_missing_vietnamese ::
  "externals \<Rightarrow> ustr \<Rightarrow> ustr \<Rightarrow> enhancer \<Rightarrow> ustr \<times> enhancer" where
  "enhance_missing_vietnamese ext chinese_text english_meaning self =
     (case call_deepseek_api ext (VietnamesePrompt chinese_text english_meaning) 200 self of
        (None, self') \<Rightarrow> ([], self')
      | (Some response, self') \<Rightarrow> (if response = [] then [] else strip response, self'))"

definition enhance_missing_examples ::
  "externals \<Rightarrow> ustr \<Rightarrow> ustr \<Rightarrow> enhancer \<Rightarrow> (py_error + json) \<times> enhancer" where
  "enhance_missing_examples ext chinese_text vietnamese_meaning self =
     (case call_deepseek_api ext (ExamplesPrompt chinese_text vietnamese_meaning) 800 self of
        (None, self') \<Rightarrow> (Inr (JArr []), self')
      | (Some response, self') \<Rightarrow>
          if response = [] then (Inr (JArr []), self') else (extract_array ext response, self'))"

definition enhance_missing_grammar_info ::
  "externals \<Rightarrow> ustr \<Rightarrow> enhancer \<Rightarrow> (py_error + json) \<times> enhancer" where
  "enhance_missing_grammar_info ext chinese_text self =
     (case call_deepseek_api ext (GrammarPrompt chinese_text) 1000 self of
        (None, self') \<Rightarrow> (Inr (JObj []), self')
      | (Some response, self') \<Rightarrow>
          if response = [] then (Inr (JObj []), self') else (extract_object ext response, self'))"

section \<open>Enrichment Scheduler (deepseek\_enhancer.py)\<close>

definition needs_enhancement :: "entry \<Rightarrow> bool" where
  "needs_enhancement r \<longleftrightarrow>
     \<not> filled (zhuyin r) \<or> \<not> filled (vi_meaning r) \<or> \<not> filled (hanviet_reading r)"

text \<open>
  \<open>ORDER BY frequency_rank DESC, id ASC\<close> as an ascending key: NULL sorts below every
  number in SQLite, so it comes last in descending order.
\<close>

definition order_key :: "entry \<Rightarrow> (nat \<times> int) \<times> int" where
  "order_key r =
     ((case frequency_rank r of None \<Rightarrow> (1, 0) | Some n \<Rightarrow> (0, - n)), id_col r)"

definition find_entries_needing_enhancement :: "int \<Rightarrow> entry list \<Rightarrow> py_error + entry list" where
  "find_entries_needing_enhancement limit rows =
     sql_limit limit (sort_key order_key (filter needs_enhancement rows))"

text \<open>\<open>d.get(k)\<close>: only a dict has the method.\<close>

definition py_get :: "json \<Rightarrow> ustr \<Rightarrow> py_error + json" where
  "py_get d k =
     (case d of
        JObj kvs \<Rightarrow> Inr (case map_of kvs k of None \<Rightarrow> JNull | Some v \<Rightarrow> v)
      | _ \<Rightarrow> Inl AttributeError)"

definition pronunciation_updates :: "entry \<Rightarrow> json \<Rightarrow> py_error + (column \<times> json) list" where
  "pronunciation_updates entry pronunciation_data =
     bind_err (py_get pronunciation_data (u ''zhuyin'')) (\<lambda>z.
     bind_err (py_get pronunciation_data (u ''hanviet'')) (\<lambda>h.
     bind_err (py_get pronunciation_data (u ''pinyin_tones'')) (\<lambda>p.
       Inr ((if truthy z then [(Czhuyin, z)] else []) @
            (if truthy h then [(Chanviet_reading, h)] else []) @
            (if truthy p \<and> \<not> filled (pinyin entry) then [(Cpinyin, p)] else [])))))"

text \<open>A nullable text as an argument with the default \<open>''\<close>: \<open>None\<close> and \<open>''\<close> give the same prompt.\<close>

definition text_or_empty :: "ustr option \<Rightarrow> ustr" where
  "text_or_empty v = (case v of None \<Rightarrow> [] | Some s \<Rightarrow> s)"

text \<open>
  The four steps of \<open>enhance_entry\<close> that build the dict \<open>updates\<close>, in the order of its
  assignments. Each takes the dict and the enhancer and returns the dict, or the exception
  that leaves the method, with the enhancer after the requests made.
\<close>

definition pronunciation_step ::
  "externals \<Rightarrow> entry \<Rightarrow> enhancer \<Rightarrow> (py_error + (column \<times> json) list) \<times> enhancer" where
  "pronunciation_step ext entry self =
     (if \<not> filled (zhuyin entry) \<or> \<not> filled (hanviet_reading entry) then
        (case enhance_missing_pronunciation ext (word entry) self of
           (Inl e, s) \<Rightarrow> (Inl e, s)
         | (Inr pronunciation_data, s) \<Rightarrow> (pronunciation_updates entry pronunciation_data, s))
      else (Inr [], self))"

definition vietnamese_step ::
  "externals \<Rightarrow> entry \<Rightarrow> (column \<times> json) list \<Rightarrow> enhancer
   \<Rightarrow> (column \<times> json) list \<times> enhancer" where
  "vietnamese_step ext entry updates self =
     (if \<not> filled (vi_meaning entry) then
        (case enhance_missing_vietnamese ext (word entry) (text_or_empty (en_meaning entry)) self of
           (vietnamese_meaning, s) \<Rightarrow>
             (if vietnamese_meaning \<noteq> []
              then updates @ [(Cvi_meaning, JStr vietnamese_meaning)] else updates, s))
      else (updates, self))"

definition examples_step ::
  "externals \<Rightarrow> entry \<Rightarrow> (column \<times> json) list \<Rightarrow> enhancer
   \<Rightarrow> (py_error + (column \<times> json) list) \<times> enhancer" where
  "examples_step ext entry updates self =
     (if \<not> filled (examples entry) then
        (case enhance_missing_examples ext (word entry)
                (case map_of updates Cvi_meaning of
                   Some (JStr s) \<Rightarrow> s
                 | _ \<Rightarrow> text_or_empty (vi_meaning entry)) self of
           (Inl e, s) \<Rightarrow> (Inl e, s)
         | (Inr examples', s) \<Rightarrow>
             (Inr (if truthy examples'
                   then updates @ [(Cexamples, JStr (json_dumps ext examples'))] else updates), s))
      else (Inr updates, self))"

definition grammar_step ::
  "externals \<Rightarrow> entry \<Rightarrow> (column \<times> json) list \<Rightarrow> enhancer
   \<Rightarrow> (py_error + (column \<times> json) list) \<times> enhancer" where
  "grammar_step ext entry updates self =
     (if \<not> filled (grammar_info entry) then
        (case enhance_missing_grammar_info ext (word entry) self of
           (Inl e, s) \<Rightarrow> (Inl e, s)
         | (Inr grammar_info', s) \<Rightarrow>
             (Inr (if truthy grammar_info'
                   then updates @ [(Cgrammar_info, JStr (json_dumps ext grammar_info'))]
                   else updates), s))
      else (Inr updates, self))"

definition compute_updates ::
  "externals \<Rightarrow> entry \<Rightarrow> enhancer \<Rightarrow> (py_error + (column \<times> json) list) \<times> enhancer" where
  "compute_updates ext entry self =
     (case pronunciation_step ext entry self of
        (Inl e, self1) \<Rightarrow> (Inl e, self1)
      | (Inr updates1, self1) \<Rightarrow>
          (case vietnamese_step ext entry updates1 self1 of
             (updates2, self2) \<Rightarrow>
               (case examples_step ext entry updates2 self2 of
                  (Inl e, self3) \<Rightarrow> (Inl e, self3)
                | (Inr updates3, self3) \<Rightarrow> grammar_step ext entry updates3 self3)))"

text \<open>The decimal text of an integer, as a column with TEXT affinity stores it.\<close>

fun digits :: "nat \<Rightarrow> ustr" where
  "digits n = (if n < 10 then [48 + n] else digits (n div 10) @ [48 + n mod 10])"

declare digits.simps [simp del]

definition decimal :: "int \<Rightarrow> ustr" where
  "decimal n = (if n < 0 then 45 # digits (nat (- n)) else digits (nat n))"

text \<open>
  What binding a value to \<open>?\<close> stores in a TEXT column: \<open>None\<close> where sqlite3 raises (a list,
  a dict, an integer beyond 64 bits).
\<close>

fun sql_text :: "json \<Rightarrow> ustr option option" where
  "sql_text JNull = Some None"
| "sql_text (JBool b) = Some (Some (if b then u ''1'' else u ''0''))"
| "sql_text (JInt n) = (case sql_int n of Inr m \<Rightarrow> Some (Some (decimal m)) | Inl e \<Rightarrow> None)"
| "sql_text (JStr s) = Some (Some s)"
| "sql_text (JArr xs) = None"
| "sql_text (JObj kvs) = None"

definition column_exists :: "enhancer \<Rightarrow> column \<Rightarrow> bool" where
  "column_exists self c \<longleftrightarrow>
     (c = Cexamples \<longrightarrow> has_examples self) \<and> (c = Cgrammar_info \<longrightarrow> has_grammar_info self)"

text \<open>The SET clauses with their bound values, or \<open>None\<close> where \<open>cursor.execute\<close> raises.\<close>

fun bind_updates :: "enhancer \<Rightarrow> (column \<times> json) list \<Rightarrow> (column \<times> ustr option) list option" where
  "bind_updates self [] = Some []"
| "bind_updates self ((field, val) # updates) =
     (case sql_text val of
        None \<Rightarrow> None
      | Some v \<Rightarrow>
          if column_exists self field
          then map_option (\<lambda>rest. (field, v) # rest) (bind_updates self updates)
          else None)"

text \<open>\<open>_update_database_entry\<close> catches every exception of the UPDATE and returns \<open>False\<close>.\<close>

definition update_database_entry ::
  "externals \<Rightarrow> int \<Rightarrow> (column \<times> json) list \<Rightarrow> enhancer \<Rightarrow> bool \<times> enhancer" where
  "update_database_entry ext entry_id updates self =
     (let stamp = now_isoformat ext (readings self);
          self1 = self\<lparr>readings := readings self + 1\<rparr>
      in case bind_updates self updates of
           None \<Rightarrow> (False, self1)
         | Some bound \<Rightarrow>
             (case sql_int entry_id of
                Inl e \<Rightarrow> (False, self1)
              | Inr i \<Rightarrow>
                 (True,
                  self1\<lparr>conn :=
                    map (\<lambda>r. if id_col r = i
                              then (fold (\<lambda>(field, v). set_column field v) bound r)
                                     \<lparr>updated_at := Some stamp\<rparr>
                              else r) (conn self)\<rparr>)))"

definition enhance_entry ::
  "externals \<Rightarrow> entry \<Rightarrow> enhancer \<Rightarrow> (py_error + bool) \<times> enhancer" where
  "enhance_entry ext entry self =
     (case compute_updates ext entry self of
        (Inl e, self') \<Rightarrow> (Inl e, self')
      | (Inr updates, self') \<Rightarrow>
          if updates \<noteq> [] then
            (case update_database_entry ext (id_col entry) updates self' of
               (ok, self'') \<Rightarrow> (Inr ok, self''))
          else (Inr False, self'))"

text \<open>
  The \<open>for\<close> loop of \<open>enhance_batch\<close> over one batch. The state is the enhancer,
  \<open>enhanced_count\<close> and \<open>total_processed\<close>; an exception of \<open>enhance_entry\<close> is caught and
  counts the entry as processed.
\<close>

fun process_batch ::
  "externals \<Rightarrow> int \<Rightarrow> entry list \<Rightarrow> enhancer \<times> int \<times> int \<Rightarrow> enhancer \<times> int \<times> int" where
  "process_batch ext max_entries [] st = st"
| "process_batch ext max_entries (entry # entries) (self, enhanced_count, total_processed) =
     (if total_processed \<ge> max_entries then (self, enhanced_count, total_processed)
      else
        (case enhance_entry ext entry self of
           (Inr ok, self') \<Rightarrow>
             process_batch ext max_entries entries
               (self', if ok then enhanced_count + 1 else enhanced_count, total_processed + 1)
         | (Inl e, self') \<Rightarrow>
             process_batch ext max_entries entries (self', enhanced_count, total_processed + 1)))"

text \<open>
  The \<open>while\<close> loop of \<open>enhance_batch\<close>. The query for the next batch runs outside every
  \<open>try\<close>: its exception leaves \<open>enhance_batch\<close>. The loop returns the exception or the two
  counters, and the enhancer.
\<close>

function enhance_loop ::
  "externals \<Rightarrow> int \<Rightarrow> int \<Rightarrow> enhancer \<times> int \<times> int \<Rightarrow> (py_error + int \<times> int) \<times> enhancer" where
  "enhance_loop ext batch_size max_entries (self, enhanced_count, total_processed) =
     (if total_processed < max_entries then
        (case find_entries_needing_enhancement batch_size (conn self) of
           Inl e \<Rightarrow> (Inl e, self)
         | Inr entries \<Rightarrow>
             if entries = [] then (Inr (enhanced_count, total_processed), self)
             else enhance_loop ext batch_size max_entries
                    (process_batch ext max_entries entries (self, enhanced_count, total_processed)))
      else (Inr (enhanced_count, total_processed), self))"
  by pat_completeness auto
termination
proof (relation "measure (\<lambda>(ext, batch_size, max_entries, self, enhanced_count, total_processed).
                   nat (max_entries - total_processed))")
  show "wf (measure (\<lambda>(ext, batch_size, max_entries, self, enhanced_count, total_processed).
                   nat (max_entries - total_processed)))"
    by simp
next
  fix ext :: externals and batch_size max_entries :: int and self :: enhancer
    and enhanced_count total_processed :: int and entries :: "entry list"
  assume less: "total_processed < max_entries"
    and nonempty: "entries \<noteq> []"
  have mono: "snd (snd st) \<le> snd (snd (process_batch ext max_entries es st))" for es st
  proof (induction es arbitrary: st)
    case Nil
    show ?case by simp
  next
    case (Cons e es)
    obtain s c t where st: "st = (s, c, t)"
      by (cases st)
    show ?case
    proof (cases "t \<ge> max_entries")
      case True
      then show ?thesis by (simp add: st)
    next
      case False
      obtain res s' where res: "enhance_entry ext e s = (res, s')"
        by (cases "enhance_entry ext e s")
      show ?thesis
      proof (cases res)
        case (Inl err)
        have "snd (snd (s', c, t + 1)) \<le> snd (snd (process_batch ext max_entries es (s', c, t + 1)))"
          by (rule Cons.IH)
        then show ?thesis
          using False by (simp add: st res Inl)
      next
        case (Inr ok)
        have "snd (snd (s', if ok then c + 1 else c, t + 1))
              \<le> snd (snd (process_batch ext max_entries es (s', if ok then c + 1 else c, t + 1)))"
          by (rule Cons.IH)
        then show ?thesis
          using False by (simp add: st res Inr)
      qed
    qed
  qed
  obtain e es where es: "entries = e # es"
    using nonempty by (cases entries) auto
  obtain res s' where res: "enhance_entry ext e self = (res, s')"
    by (cases "enhance_entry ext e self")
  have "total_processed < snd (snd (process_batch ext max_entries entries
          (self, enhanced_count, total_processed)))"
  proof (cases res)
    case (Inl err)
    have "snd (snd (s', enhanced_count, total_processed + 1))
          \<le> snd (snd (process_batch ext max_entries es (s', enhanced_count, total_processed + 1)))"
      by (rule mono)
    then show ?thesis
      using less by (simp add: es res Inl)
  next
    case (Inr ok)
    have "snd (snd (s', if ok then enhanced_count + 1 else enhanced_count, total_processed + 1))
          \<le> snd (snd (process_batch ext max_entries es
                (s', if ok then enhanced_count + 1 else enhanced_count, total_processed + 1)))"
      by (rule mono)
    then show ?thesis
      using less by (simp add: es res Inr)
  qed
  then show "((ext, batch_size, max_entries,
               process_batch ext max_entries entries (self, enhanced_count, total_processed)),
              (ext, batch_size, max_entries, self, enhanced_count, total_processed))
             \<in> measure (\<lambda>(ext, batch_size, max_entries, self, enhanced_count, total_processed).
                   nat (max_entries - total_processed))"
    using less
    by (cases "process_batch ext max_entries entries (self, enhanced_count, total_processed)")
      auto
qed

declare enhance_loop.simps [simp del]

definition enhance_batch ::
  "externals \<Rightarrow> int \<Rightarrow> int \<Rightarrow> enhancer \<Rightarrow> (py_error + int) \<times> enhancer" where
  "enhance_batch ext batch_size max_entries self =
     (case enhance_loop ext batch_size max_entries (self, 0, 0) of
        (Inl e, self') \<Rightarrow> (Inl e, self')
      | (Inr (enhanced_count, total_processed), self') \<Rightarrow> (Inr enhanced_count, self'))"

section \<open>Notions of the claims\<close>

text \<open>A field is missing: it is NULL or the empty string.\<close>

definition lacks :: "ustr option \<Rightarrow> bool" where
  "lacks v \<longleftrightarrow> v = None \<or> v = Some []"

text \<open>
  "Ordered by descending frequency rank and then ascending identity", the identity of an
  entry being its \<open>word\<close>: \<open>a\<close> may stand before \<open>b\<close>.
\<close>

definition claimed_before :: "entry \<Rightarrow> entry \<Rightarrow> bool" where
  "claimed_before a b \<longleftrightarrow>
     (case (frequency_rank a, frequency_rank b) of
        (Some x, Some y) \<Rightarrow> x > y \<or> (x = y \<and> word a \<le> word b)
      | (Some x, None) \<Rightarrow> True
      | (None, Some y) \<Rightarrow> False
      | (None, None) \<Rightarrow> word a \<le> word b)"

text \<open>
  Ordered by descending frequency rank and then ascending row id; an entry without a rank
  stands after every entry that has one.
\<close>

definition ranked_before :: "entry \<Rightarrow> entry \<Rightarrow> bool" where
  "ranked_before a b \<longleftrightarrow>
     (case (frequency_rank a, frequency_rank b) of
        (Some x, Some y) \<Rightarrow> x > y \<or> (x = y \<and> id_col a \<le> id_col b)
      | (Some x, None) \<Rightarrow> True
      | (None, Some y) \<Rightarrow> False
      | (None, None) \<Rightarrow> id_col a \<le> id_col b)"

text \<open>
  "A response containing no valid bracketed structure" of the kind given by the two
  brackets: no part of the response from an opening to a later closing bracket is text that
  \<open>json.loads\<close> turns into a value.
\<close>

definition no_valid_structure :: "externals \<Rightarrow> nat \<Rightarrow> nat \<Rightarrow> ustr \<Rightarrow> bool" where
  "no_valid_structure ext opening closing response \<longleftrightarrow>
     (\<forall>j < length response. \<forall>i < j.
        response ! i = opening \<and> response ! j = closing \<longrightarrow>
        isl (json_loads ext (slice (int i) (int j + 1) response)))"

section \<open>Concrete data\<close>

text \<open>
  The store of the reconciliation scenario: one entry for the word U+4F60 U+597D with an empty
  translation, and the source entry for it. Two more source entries, for U+4E00 and for
  U+5B78 (simplified U+5B66), make a Source Store that is larger than the cap.
\<close>

definition ni_hao :: ustr where
  "ni_hao = [20320, 22909]"

definition scenario_entry :: "int \<Rightarrow> entry" where
  "scenario_entry i =
     \<lparr> id_col = i, word = ni_hao, traditional = None, simplified = None, pinyin = None,
       zhuyin = None, vi_meaning = Some [], en_meaning = None, part_of_speech = None,
       hsk_level = None, tocfl_level = None, frequency_rank = None, hanviet_reading = None,
       created_at = None, updated_at = None, cedict_definitions = None, source = None,
       examples = None, grammar_info = None \<rparr>"

definition scenario_source :: "int \<Rightarrow> ustr \<Rightarrow> ustr \<Rightarrow> cedict_entry" where
  "scenario_source i defs created =
     \<lparr> ce_id = i, ce_traditional = ni_hao, ce_simplified = ni_hao, ce_pinyin = u ''ni3 hao3'',
       ce_english = u ''hello'', ce_definitions = defs, ce_created_at = created \<rparr>"

text \<open>
  An outside world for the concrete runs: \<open>json.loads\<close> parses the definition lists of the
  stores below and rejects every other text, the API answers a translation request with a
  translation and every other request with text that holds no JSON, and the clock advances
  by one second at each reading. The times of these runs are small integers and quarters,
  whose float difference is the exact one. No run below calls \<open>json.dumps\<close>.
\<close>

definition demo_ext :: externals where
  "demo_ext =
     \<lparr> json_loads = (\<lambda>s.
         case map_of
           [(u ''[\"hello\"]'', JArr [JStr (u ''hello'')]),
            (u ''[\"one\"]'', JArr [JStr (u ''one'')]),
            (u ''[\"to learn\"]'', JArr [JStr (u ''to learn'')]),
            (u ''[\"to walk\"]'', JArr [JStr (u ''to walk'')]),
            (u ''[\"row\"]'', JArr [JStr (u ''row'')])] s of
           Some v \<Rightarrow> Inr v
         | None \<Rightarrow> Inl JSONDecodeError),
       json_dumps = (\<lambda>x. []),
       post = (\<lambda>k p n. case p of
                 PronunciationPrompt w \<Rightarrow> Some (u ''} no data {'')
               | VietnamesePrompt w e \<Rightarrow> Some (u '' xin chao '')
               | ExamplesPrompt w v \<Rightarrow> Some (u ''none ['')
               | GrammarPrompt w \<Rightarrow> Some (u ''{not json}'')),
       time = (\<lambda>k. real k),
       now_isoformat = (\<lambda>k. u ''2024-01-01T00:00:00''),
       float_sub = (\<lambda>a b. a - b) \<rparr>"

definition demo_store :: integrator where
  "demo_store =
     \<lparr> main_db = [scenario_entry 1],
       cedict_db =
         [scenario_source 1 (u ''[\"hello\"]'') [],
          \<lparr> ce_id = 2, ce_traditional = [19968], ce_simplified = [19968], ce_pinyin = u ''yi1'',
            ce_english = u ''one'', ce_definitions = u ''[\"one\"]'', ce_created_at = [] \<rparr>,
          \<lparr> ce_id = 3, ce_traditional = [23416], ce_simplified = [23398], ce_pinyin = u ''xue2'',
            ce_english = u ''to learn'', ce_definitions = u ''[\"to learn\"]'', ce_created_at = [] \<rparr>],
       clock_reads = 0 \<rparr>"




text \<open>A scheduler on four entries that all lack a translation, two of them ranked.\<close>

definition demo_enhancer :: enhancer where
  "demo_enhancer =
     \<lparr> conn = [(scenario_entry 1)\<lparr>frequency_rank := Some 5\<rparr>,
               (scenario_entry 2)\<lparr>frequency_rank := Some 9\<rparr>,
               scenario_entry 3,
               scenario_entry 4],
       has_examples = False, has_grammar_info = False,
       last_request_time = 0, readings = 0, requests = 0, sleeps = [] \<rparr>"

text \<open>
  Two entries of the same rank that lack a translation: the word U+597D with the id 1 and
  the word U+4F60, which is the smaller string, with the id 2.
\<close>

definition tie_rows :: "entry list" where
  "tie_rows =
     [(scenario_entry 1)\<lparr>word := [22909], frequency_rank := Some 5\<rparr>,
      (scenario_entry 2)\<lparr>word := [20320], frequency_rank := Some 5\<rparr>]"

text \<open>
  The entry of the scenario after an earlier reconciliation against other data: it has an
  English meaning and a definitions sidecar already.
\<close>

definition stale_entry :: entry where
  "stale_entry =
     (scenario_entry 1)\<lparr>en_meaning := Some (u ''greeting''),
                        cedict_definitions := Some (u ''[\"hi\"]'')\<rparr>"

text \<open>
  An API that answers a pronunciation request with a JSON object holding a zhuyin reading
  and fails on every other request, and the entry of the scenario with a zhuyin reading of
  its own.
\<close>

definition zhuyin_ext :: externals where
  "zhuyin_ext =
     demo_ext\<lparr>json_loads := (\<lambda>s.
                if s = u ''{\"zhuyin\": \"new\"}'' then Inr (JObj [(u ''zhuyin'', JStr (u ''new''))])
                else Inl JSONDecodeError),
              post := (\<lambda>k p n. case p of
                        PronunciationPrompt w \<Rightarrow> Some (u ''{\"zhuyin\": \"new\"}'')
                      | _ \<Rightarrow> None)\<rparr>"

definition zhuyin_entry :: entry where
  "zhuyin_entry = (scenario_entry 1)\<lparr>zhuyin := Some (u ''old'')\<rparr>"

text \<open>
  A response to an examples request that opens 1000 brackets and closes one: it holds no
  JSON, and \<open>json.loads\<close> raises \<open>RecursionError\<close> on it, the nesting being deeper than the
  interpreter's recursion limit.
\<close>

definition deep_brackets :: ustr where
  "deep_brackets = replicate 1000 91 @ u ''x]''"

definition deep_ext :: externals where
  "deep_ext =
     demo_ext\<lparr>json_loads := (\<lambda>s. if s = deep_brackets then Inl RecursionError
                                  else Inl JSONDecodeError),
              post := (\<lambda>k p n. case p of
                        ExamplesPrompt w v \<Rightarrow> Some deep_brackets
                      | _ \<Rightarrow> None)\<rparr>"

section \<open>Results of the claims\<close>

subsection \<open>Tone marks and statistics\<close>

lemma convert_pinyin_ni_hao:
  "convert_pinyin_tone_numbers ucd (u ''ni3 hao3'') = Inr [110, 464, 32, 104, 462, 111]"
  by (simp add: convert_pinyin_tone_numbers_def split_def convert_word_def u_def isspace_def
      digit_class_of_def bind_err_def vowels_def tone_marks_def)

text \<open>
  Claim C9. The transform is to turn \<open>ni3 hao3\<close> into \<open>ni hao\<close> with two third-tone marks
  and \<open>zhong1guo2\<close> into \<open>zhongguo\<close> with a first-tone and a second-tone mark. On the second
  input the function reads one tone digit only, the last one of the blank-separated word:
  it marks the first \<open>o\<close> with the second tone and keeps the inner \<open>1\<close>, and the final \<open>o\<close>
  stays bare. The result is the code points of \<open>zh\<close>, U+00F3, \<open>ng1guo\<close>, not those of the
  expected word (U+014D for the first \<open>o\<close>, U+00F3 for the last).
\<close>

theorem convert_pinyin_zhongguo:
  "convert_pinyin_tone_numbers ucd (u ''zhong1guo2'') = Inr (u ''zh'' @ [243] @ u ''ng1guo'') \<and>
   convert_pinyin_tone_numbers ucd (u ''zhong1guo2'')
     \<noteq> Inr [122, 104, 333, 110, 103, 103, 117, 243]"
  by (simp add: convert_pinyin_tone_numbers_def split_def convert_word_def u_def isspace_def
      digit_class_of_def bind_err_def vowels_def tone_marks_def)

text \<open>
  Claim C10. On the empty store the statistics are to be returned with the five rates 0.
  The guards \<open>if total > 0\<close> are there, but the function never reaches them: its connection
  returns each row as a dict keyed by column name, so the first \<open>cursor.fetchone()[0]\<close>
  looks up the integer key 0 in \<open>{'COUNT(*)': 0}\<close> and raises \<open>KeyError\<close>.
\<close>

theorem get_initial_statistics_empty_store:
  "get_initial_statistics [] = Inl KeyError"
  by (simp add: get_initial_statistics_def bind_err_def getitem_def fetch_count_def
      row_factory_def)

subsection \<open>Reconciler\<close>

lemmas demo_simps = integrate_full_def update_existing_entries_def add_new_cedict_entries_def
  lookup_cedict_def scenario_entry_def scenario_source_def enhance_entry_with_cedict_def
  blank_def u_def ni_hao_def sql_update_def apply_updates_def new_cedict_entries_def
  select_cedict_ordered_def sql_limit_def sql_int_def bind_err_def parses_or_caught_def
  get_main_dict_stats_def Let_def demo_ext_def demo_store_def new_row_def next_id_def
  strip_def isspace_def

text \<open>
  Claim C6. With the one entry of the scenario and its source entry, \<open>integrate_full\<close> with
  the limit 10 returns a result that reports one matched, one updated and no added entry;
  afterwards the entry has the pinyin and the English meaning of the source and its
  translation is still empty. The scenario does not give the definitions of the source
  entry: this holds for every text on which \<open>json.loads\<close> returns a value or raises one of
  the two exceptions that the reconciler catches. (The result names the number of inserted
  entries \<open>added_entries\<close>.)
\<close>

theorem integrate_scenario:
  assumes "\<forall>e. json_loads ext defs = Inl e \<longrightarrow> e = JSONDecodeError \<or> e = TypeError"
  shows "\<exists>res self'.
     integrate_full ext 10
       \<lparr> main_db = [scenario_entry i], cedict_db = [scenario_source j defs created],
         clock_reads = k \<rparr> = (Inr res, self') \<and>
     matched_entries res = 1 \<and> updated_entries res = 1 \<and> added_entries res = 0 \<and>
     map pinyin (main_db self') = [Some (u ''ni3 hao3'')] \<and>
     map en_meaning (main_db self') = [Some (u ''hello'')] \<and>
     map vi_meaning (main_db self') = [Some []]"
  using assms
  by (cases "json_loads ext defs")
    (auto simp: integrate_full_def update_existing_entries_def add_new_cedict_entries_def
      lookup_cedict_def scenario_entry_def scenario_source_def enhance_entry_with_cedict_def
      blank_def u_def ni_hao_def sql_update_def apply_updates_def new_cedict_entries_def
      select_cedict_ordered_def sql_limit_def sql_int_def bind_err_def
      get_main_dict_stats_def Let_def)

theorem integrate_scenario_witness:
  "fst (integrate_full demo_ext 10
       \<lparr> main_db = [scenario_entry 1], cedict_db = [scenario_source 1 (u ''[\"hello\"]'') []],
         clock_reads = 0 \<rparr>) =
   Inr \<lparr> matched_entries = 1, updated_entries = 1, added_entries = 0,
         total_before = 1, total_after = 1 \<rparr>"
proof -
  have ok: "\<forall>e. json_loads demo_ext (u ''[\"hello\"]'') = Inl e \<longrightarrow> e = JSONDecodeError \<or> e = TypeError"
    by (simp add: demo_ext_def u_def)
  have "fst (integrate_full demo_ext 10
       \<lparr> main_db = [scenario_entry 1], cedict_db = [scenario_source 1 (u ''[\"hello\"]'') []],
         clock_reads = 0 \<rparr>) =
     Inr \<lparr> matched_entries = 1, updated_entries = 1, added_entries = 0,
         total_before = 1, total_after = 1 \<rparr>"
    by (simp add: demo_simps)
  with integrate_scenario [OF ok, of 1 1 "[]" 0] show ?thesis
    by simp
qed


lemma filter_new_keeps:
  assumes "\<forall>e \<in> set acc. P e"
    and "\<And>e. ce_simplified e \<notin> W \<Longrightarrow> ce_traditional e \<notin> W \<Longrightarrow> P e"
  shows "\<forall>e \<in> set (filter_new limit W es acc). P e"
  using assms(1)
proof (induction es arbitrary: acc)
  case Nil
  then show ?case by simp
next
  case (Cons a es)
  show ?case
  proof (cases "ce_traditional a \<notin> W \<and> ce_simplified a \<notin> W")
    case True
    then have "P a"
      using assms(2) by blast
    then have all: "\<forall>e \<in> set (acc @ [a]). P e"
      using Cons.prems by simp
    have rec: "\<forall>e \<in> set (filter_new limit W es (acc @ [a])). P e"
      using all by (rule Cons.IH)
    have "filter_new limit W (a # es) acc = acc @ [a] \<or>
          filter_new limit W (a # es) acc = filter_new limit W es (acc @ [a])"
      using True by simp
    then show ?thesis
      using all rec by metis
  next
    case False
    then have "filter_new limit W (a # es) acc = filter_new limit W es acc"
      by auto
    moreover have "\<forall>e \<in> set (filter_new limit W es acc). P e"
      using Cons.prems by (rule Cons.IH)
    ultimately show ?thesis by metis
  qed
qed

lemma filter_new_subset:
  "set (filter_new limit W es acc) \<subseteq> set acc \<union> set es"
proof (induction es arbitrary: acc)
  case Nil
  then show ?case by simp
next
  case (Cons a es)
  have "set (filter_new limit W es (acc @ [a])) \<subseteq> set (acc @ [a]) \<union> set es"
    by (rule Cons.IH)
  moreover have "set (filter_new limit W es acc) \<subseteq> set acc \<union> set es"
    by (rule Cons.IH)
  ultimately show ?case by auto
qed

lemma new_cedict_entries_Inr:
  assumes "new_cedict_entries limit rows cedict = Inr sel"
  obtains all_entries where "select_cedict_ordered (limit * 3) cedict = Inr all_entries"
    and "sel = filter_new limit (set (map word rows)) all_entries []"
  using assms unfolding new_cedict_entries_def bind_err_def
  by (cases "select_cedict_ordered (limit * 3) cedict") auto

lemma new_cedict_entries_fresh:
  assumes "new_cedict_entries limit rows cedict = Inr sel" and "S \<in> set sel"
  shows "ce_simplified S \<notin> set (map word rows) \<and> ce_traditional S \<notin> set (map word rows)"
proof -
  from assms(1) obtain all_entries where
    sel: "sel = filter_new limit (set (map word rows)) all_entries []"
    by (rule new_cedict_entries_Inr)
  have "\<forall>e \<in> set (filter_new limit (set (map word rows)) all_entries []).
        ce_simplified e \<notin> set (map word rows) \<and> ce_traditional e \<notin> set (map word rows)"
    by (rule filter_new_keeps) simp_all
  with assms(2) sel show ?thesis
    by blast
qed

lemma new_cedict_entries_subset:
  assumes "new_cedict_entries limit rows cedict = Inr sel"
  shows "set sel \<subseteq> set cedict"
proof -
  from assms obtain all_entries where
    all: "select_cedict_ordered (limit * 3) cedict = Inr all_entries"
    and sel: "sel = filter_new limit (set (map word rows)) all_entries []"
    by (rule new_cedict_entries_Inr)
  have "set all_entries \<subseteq> set cedict"
    using all
    by (auto simp: select_cedict_ordered_def sql_limit_def sql_int_def bind_err_def
        split: if_splits dest: in_set_takeD)
  then show ?thesis
    unfolding sel using filter_new_subset [of limit "set (map word rows)" all_entries "[]"]
    by auto
qed

lemma insert_loop_appends:
  "insert_loop ext es (rows, ticks, n) = (rows', ticks', n') \<Longrightarrow>
   \<exists>new. rows' = rows @ new \<and> n' = n + int (length new) \<and>
         list_all2 (\<lambda>r S. \<exists>i c t. r = new_row i c t S) new (filter (parses_or_caught ext) es)"
proof (induction es arbitrary: rows ticks n)
  case Nil
  then show ?case by simp
next
  case (Cons e es)
  show ?case
  proof (cases "parses_or_caught ext e")
    case False
    with Cons.prems have "insert_loop ext es (rows, ticks, n) = (rows', ticks', n')"
      by simp
    from Cons.IH [OF this] False show ?thesis
      by simp
  next
    case True
    let ?r = "new_row (next_id rows) (now_isoformat ext ticks) (now_isoformat ext (ticks + 1)) e"
    from Cons.prems True have
      "insert_loop ext es (rows @ [?r], ticks + 2, n + 1) = (rows', ticks', n')"
      by simp
    from Cons.IH [OF this] obtain new where new:
      "rows' = (rows @ [?r]) @ new" "n' = (n + 1) + int (length new)"
      "list_all2 (\<lambda>r S. \<exists>i c t. r = new_row i c t S) new (filter (parses_or_caught ext) es)"
      by blast
    have "rows' = rows @ (?r # new) \<and> n' = n + int (length (?r # new)) \<and>
        list_all2 (\<lambda>r S. \<exists>i c t. r = new_row i c t S) (?r # new)
          (filter (parses_or_caught ext) (e # es))"
      using new True by auto
    then show ?thesis by blast
  qed
qed

lemma new_row_word: "word (new_row i c t S) = ce_traditional S"
  by (simp add: new_row_def)

lemma add_new_cedict_entries_appends:
  assumes "add_new_cedict_entries ext limit self = (Inr added_count, self')"
  shows "\<exists>new sel. new_cedict_entries limit (main_db self) (cedict_db self) = Inr sel \<and>
           main_db self' = main_db self @ new \<and> cedict_db self' = cedict_db self \<and>
           int (length new) = added_count \<and>
           list_all2 (\<lambda>r S. \<exists>i c t. r = new_row i c t S) new
             (filter (parses_or_caught ext) sel)"
proof -
  obtain sel where sel: "new_cedict_entries limit (main_db self) (cedict_db self) = Inr sel"
    using assms by (cases "new_cedict_entries limit (main_db self) (cedict_db self)")
      (auto simp: add_new_cedict_entries_def)
  obtain rows ticks n where loop:
    "insert_loop ext sel (main_db self, clock_reads self, 0) = (rows, ticks, n)"
    by (metis prod_cases3)
  with assms sel have self': "self' = self\<lparr>main_db := rows, clock_reads := ticks\<rparr>"
    "added_count = n"
    by (auto simp: add_new_cedict_entries_def)
  from insert_loop_appends [OF loop] obtain new where new:
    "rows = main_db self @ new" "n = int (length new)"
    "list_all2 (\<lambda>r S. \<exists>i c t. r = new_row i c t S) new (filter (parses_or_caught ext) sel)"
    by auto
  have "new_cedict_entries limit (main_db self) (cedict_db self) = Inr sel \<and>
      main_db self' = main_db self @ new \<and> cedict_db self' = cedict_db self \<and>
      int (length new) = added_count \<and>
      list_all2 (\<lambda>r S. \<exists>i c t. r = new_row i c t S) new (filter (parses_or_caught ext) sel)"
    using sel self' new by simp
  then show ?thesis by blast
qed




lemma set_column_word: "word (set_column c v r) = word r"
  by (cases c) simp_all

lemma apply_updates_word: "word (apply_updates updates r) = word r"
  unfolding apply_updates_def
  by (induction updates arbitrary: r) (auto simp: set_column_word)

lemma sql_update_words: "map word (sql_update i updates stamp rows) = map word rows"
  by (simp add: sql_update_def apply_updates_word)

lemma update_loop_words:
  "update_loop ext matches (rows, ticks, n) = (rows', ticks', n') \<Longrightarrow> map word rows' = map word rows"
proof (induction matches arbitrary: rows ticks n)
  case Nil
  then show ?case by simp
next
  case (Cons m matches)
  obtain main_entry ce where m: "m = (main_entry, ce)"
    by (cases m)
  show ?case
  proof (cases "enhance_entry_with_cedict ext main_entry ce")
    case (Inl e)
    with Cons.prems m have "update_loop ext matches (rows, ticks, n) = (rows', ticks', n')"
      by simp
    then show ?thesis by (rule Cons.IH)
  next
    case (Inr updates)
    show ?thesis
    proof (cases "updates = []")
      case True
      with Cons.prems m Inr have "update_loop ext matches (rows, ticks, n) = (rows', ticks', n')"
        by simp
      then show ?thesis by (rule Cons.IH)
    next
      case False
      with Cons.prems m Inr have
        "update_loop ext matches
           (sql_update (id_col main_entry) updates (now_isoformat ext ticks) rows,
            ticks + 1, n + 1) = (rows', ticks', n')"
        by simp
      then have "map word rows' = map word (sql_update (id_col main_entry) updates
          (now_isoformat ext ticks) rows)"
        by (rule Cons.IH)
      then show ?thesis by (simp add: sql_update_words)
    qed
  qed
qed

lemma find_matching_length:
  "length (find_matching_entries rows cedict) =
   length (filter (\<lambda>w. lookup_cedict cedict w \<noteq> None) (map word rows))"
  by (induction rows) (auto split: option.splits)

lemma lookup_cedict_traditional:
  "S \<in> set cedict \<Longrightarrow> lookup_cedict cedict (ce_traditional S) \<noteq> None"
proof -
  assume "S \<in> set cedict"
  then have "find (\<lambda>c. ce_traditional c = ce_traditional S) cedict \<noteq> None"
    by (auto simp: find_None_iff)
  then show ?thesis
    by (auto simp: lookup_cedict_def split: option.splits)
qed

lemma list_all2_new_row_words:
  "list_all2 (\<lambda>r S. \<exists>i c t. r = new_row i c t S) new sel \<Longrightarrow> map word new = map ce_traditional sel"
  by (induction rule: list_all2_induct) (auto simp: new_row_word)

lemma integrate_full_steps:
  assumes "integrate_full ext k s = (Inr r, s')"
  shows "\<exists>(mid::integrator) new sel.
      map word (main_db mid) = map word (main_db s) \<and> cedict_db mid = cedict_db s \<and>
      main_db s' = main_db mid @ new \<and> cedict_db s' = cedict_db s \<and>
      added_entries r = int (length new) \<and>
      matched_entries r = int (length (find_matching_entries (main_db s) (cedict_db s))) \<and>
      new_cedict_entries k (main_db mid) (cedict_db mid) = Inr sel \<and>
      list_all2 (\<lambda>r S. \<exists>i c t. r = new_row i c t S) new (filter (parses_or_caught ext) sel)"
proof -
  let ?matches = "find_matching_entries (main_db s) (cedict_db s)"
  obtain rows ticks n where upd:
    "update_loop ext ?matches (main_db s, clock_reads s, 0) = (rows, ticks, n)"
    by (metis prod_cases3)
  define mid where "mid = s\<lparr>main_db := rows, clock_reads := ticks\<rparr>"
  have u: "update_existing_entries ext ?matches s = (mid, n)"
    by (simp add: update_existing_entries_def upd mid_def)
  obtain res s2 where add: "add_new_cedict_entries ext k mid = (res, s2)"
    by (cases "add_new_cedict_entries ext k mid")
  from assms obtain added where res: "res = Inr added"
    by (cases res) (auto simp: integrate_full_def Let_def u add)
  from assms have s': "s' = s2" and r: "matched_entries r = int (length ?matches)"
    "added_entries r = added"
    by (auto simp: integrate_full_def Let_def u add res)
  from add_new_cedict_entries_appends [OF add [unfolded res]] obtain new sel where new:
    "new_cedict_entries k (main_db mid) (cedict_db mid) = Inr sel"
    "main_db s2 = main_db mid @ new" "cedict_db s2 = cedict_db mid" "int (length new) = added"
    "list_all2 (\<lambda>r S. \<exists>i c t. r = new_row i c t S) new (filter (parses_or_caught ext) sel)"
    by blast
  have "map word (main_db mid) = map word (main_db s)"
    using update_loop_words [OF upd] by (simp add: mid_def)
  moreover have "cedict_db mid = cedict_db s"
    by (simp add: mid_def)
  ultimately have "map word (main_db mid) = map word (main_db s) \<and> cedict_db mid = cedict_db s \<and>
      main_db s' = main_db mid @ new \<and> cedict_db s' = cedict_db s \<and>
      added_entries r = int (length new) \<and>
      matched_entries r = int (length (find_matching_entries (main_db s) (cedict_db s))) \<and>
      new_cedict_entries k (main_db mid) (cedict_db mid) = Inr sel \<and>
      list_all2 (\<lambda>r S. \<exists>i c t. r = new_row i c t S) new (filter (parses_or_caught ext) sel)"
    using new s' r by simp
  then show ?thesis by blast
qed

text \<open>
  Claim C2, as the code has it. The second of two successive runs does not report zeros: it
  binds again every entry that the first run matched, and also every entry that the first
  run inserted, so its matched count is the first run's matched count plus the first run's
  inserted count. What the second run inserts has a \<open>word\<close> that the store did not hold after
  the first run.
\<close>

theorem second_run:
  assumes run1: "integrate_full ext k self = (Inr res1, self1)"
    and run2: "integrate_full ext k self1 = (Inr res2, self2)"
  shows "matched_entries res2 = matched_entries res1 + added_entries res1 \<and>
         (\<forall>r \<in> set (drop (length (main_db self1)) (main_db self2)).
            word r \<notin> set (map word (main_db self1)))"
proof -
  from integrate_full_steps [OF run1] obtain mid1 :: integrator and new1 sel1 where 1:
    "map word (main_db mid1) = map word (main_db self)" "cedict_db mid1 = cedict_db self"
    "main_db self1 = main_db mid1 @ new1" "cedict_db self1 = cedict_db self"
    "added_entries res1 = int (length new1)"
    "matched_entries res1 = int (length (find_matching_entries (main_db self) (cedict_db self)))"
    "new_cedict_entries k (main_db mid1) (cedict_db mid1) = Inr sel1"
    "list_all2 (\<lambda>r S. \<exists>i c t. r = new_row i c t S) new1 (filter (parses_or_caught ext) sel1)"
    by blast
  from integrate_full_steps [OF run2] obtain mid2 :: integrator and new2 sel2 where 2:
    "map word (main_db mid2) = map word (main_db self1)" "cedict_db mid2 = cedict_db self1"
    "main_db self2 = main_db mid2 @ new2"
    "matched_entries res2 = int (length (find_matching_entries (main_db self1) (cedict_db self1)))"
    "new_cedict_entries k (main_db mid2) (cedict_db mid2) = Inr sel2"
    "list_all2 (\<lambda>r S. \<exists>i c t. r = new_row i c t S) new2 (filter (parses_or_caught ext) sel2)"
    by blast
  have words1: "map word new1 = map ce_traditional (filter (parses_or_caught ext) sel1)"
    using 1(8) by (rule list_all2_new_row_words)
  have "set sel1 \<subseteq> set (cedict_db self)"
    using new_cedict_entries_subset [OF 1(7)] 1(2) by simp
  then have "\<forall>w \<in> set (map word new1). lookup_cedict (cedict_db self) w \<noteq> None"
    using words1 lookup_cedict_traditional [of _ "cedict_db self"] by auto
  then have all: "filter (\<lambda>w. lookup_cedict (cedict_db self) w \<noteq> None) (map word new1) = map word new1"
    by (simp add: filter_id_conv)
  have "length (find_matching_entries (main_db self1) (cedict_db self1)) =
        length (filter (\<lambda>w. lookup_cedict (cedict_db self) w \<noteq> None) (map word (main_db mid1))) +
        length (filter (\<lambda>w. lookup_cedict (cedict_db self) w \<noteq> None) (map word new1))"
    by (simp add: find_matching_length 1(3,4))
  also have "\<dots> = length (find_matching_entries (main_db self) (cedict_db self)) + length new1"
    by (simp only: all 1(1) find_matching_length length_map)
  finally have matched: "matched_entries res2 = matched_entries res1 + added_entries res1"
    by (simp add: 1 2)
  have len: "length (main_db mid2) = length (main_db self1)"
    using 2(1) by (metis length_map)
  have words2: "map word new2 = map ce_traditional (filter (parses_or_caught ext) sel2)"
    using 2(6) by (rule list_all2_new_row_words)
  have "\<forall>w \<in> set (map word new2). w \<notin> set (map word (main_db self1))"
    using words2 new_cedict_entries_fresh [OF 2(5)] 2(1) by auto
  then have "\<forall>r \<in> set (drop (length (main_db self1)) (main_db self2)).
      word r \<notin> set (map word (main_db self1))"
    using 2(3) len by auto
  with matched show ?thesis by blast
qed

theorem second_run_witness:
  "matched_entries (projr (fst (integrate_full demo_ext 1
     (snd (integrate_full demo_ext 1 demo_store))))) = 2 \<and>
   map word (drop (length (main_db (snd (integrate_full demo_ext 1 demo_store))))
     (main_db (snd (integrate_full demo_ext 1 (snd (integrate_full demo_ext 1 demo_store)))))) =
     [[23416]] \<and>
   [23416] \<notin> set (map word (main_db (snd (integrate_full demo_ext 1 demo_store))))"
proof -
  let ?run1 = "integrate_full demo_ext 1 demo_store"
  let ?run2 = "integrate_full demo_ext 1 (snd ?run1)"
  have r1: "fst ?run1 = Inr \<lparr> matched_entries = 1, updated_entries = 1, added_entries = 1,
       total_before = 1, total_after = 2 \<rparr>"
    by (simp add: demo_simps)
  have r2: "fst ?run2 = Inr \<lparr> matched_entries = 2, updated_entries = 2, added_entries = 1,
       total_before = 2, total_after = 3 \<rparr>"
    by (simp add: demo_simps)
  have run1: "?run1 = (Inr (projr (fst ?run1)), snd ?run1)"
    using r1 by (metis prod.collapse sum.sel(2))
  have run2: "?run2 = (Inr (projr (fst ?run2)), snd ?run2)"
    using r2 by (metis prod.collapse sum.sel(2))
  have first: "matched_entries (projr (fst ?run1)) = 1" "added_entries (projr (fst ?run1)) = 1"
    using r1 by simp_all
  have inserted: "map word (drop (length (main_db (snd ?run1))) (main_db (snd ?run2))) = [[23416]]"
    by (simp add: demo_simps)
  then have "[23416] \<in> word ` set (drop (length (main_db (snd ?run1))) (main_db (snd ?run2)))"
    by (metis list.set_intros(1) set_map)
  then obtain r where r: "r \<in> set (drop (length (main_db (snd ?run1))) (main_db (snd ?run2)))"
    "word r = [23416]"
    by auto
  note both = second_run [OF run1 run2]
  have "matched_entries (projr (fst ?run2)) = 2"
    using both first by simp
  moreover have "word r \<notin> set (map word (main_db (snd ?run1)))"
    using both r(1) by blast
  ultimately show ?thesis
    using inserted r(2) by simp
qed

text \<open>
  Claim C2 as stated, at \<open>demo_store\<close> with the cap 1: the first run reports 1 matched,
  1 updated and 1 added entry, and the second run reports 2, 2 and 1, not zeros.
\<close>

theorem second_run_counterexample:
  "fst (integrate_full demo_ext 1 demo_store) =
     Inr \<lparr> matched_entries = 1, updated_entries = 1, added_entries = 1,
           total_before = 1, total_after = 2 \<rparr> \<and>
   fst (integrate_full demo_ext 1 (snd (integrate_full demo_ext 1 demo_store))) =
     Inr \<lparr> matched_entries = 2, updated_entries = 2, added_entries = 1,
           total_before = 2, total_after = 3 \<rparr>"
  by (simp add: demo_simps)


subsection \<open>Enrichment Client\<close>

lemmas demo_enh_simps = demo_enhancer_def demo_ext_def scenario_entry_def ni_hao_def u_def
  find_entries_needing_enhancement_def sql_limit_def sql_int_def needs_enhancement_def filled_def
  order_key_def enhance_entry_def compute_updates_def pronunciation_step_def vietnamese_step_def
  examples_step_def grammar_step_def enhance_missing_pronunciation_def
  enhance_missing_vietnamese_def enhance_missing_examples_def enhance_missing_grammar_info_def
  call_deepseek_api_def rate_limit_def request_delay_def extract_object_def extract_array_def
  find_char_def rfind_char_def slice_def pronunciation_updates_def py_get_def bind_err_def
  update_database_entry_def column_exists_def text_or_empty_def strip_def isspace_def Let_def

text \<open>
  Claim C8, as the code has it. Before the request, \<open>call_deepseek_api\<close> runs \<open>rate_limit\<close>,
  which reads the clock and takes the float difference to the time recorded at the previous
  request. When the difference is less than \<open>request_delay\<close> it sleeps once, for
  \<open>request_delay\<close> minus the difference, and otherwise it does not sleep; then it records a
  new reading of the clock as the time of this request. The sleep is at most
  \<open>request_delay\<close> when the difference is not negative, that is when the clock has not been
  set back since the previous request, in an arithmetic where subtracting a non-negative
  number does not give more, as float subtraction is.
\<close>

theorem rate_limit_blocks:
  "(float_sub ext (time ext (readings self)) (last_request_time self) < request_delay \<longrightarrow>
      sleeps (rate_limit ext self) =
        sleeps self @ [float_sub ext request_delay
                         (float_sub ext (time ext (readings self)) (last_request_time self))]) \<and>
   (request_delay \<le> float_sub ext (time ext (readings self)) (last_request_time self) \<longrightarrow>
      sleeps (rate_limit ext self) = sleeps self) \<and>
   last_request_time (rate_limit ext self) = time ext (readings self + 1) \<and>
   readings (rate_limit ext self) = readings self + 2 \<and>
   ((\<forall>a b. 0 \<le> b \<longrightarrow> float_sub ext a b \<le> a) \<and>
    0 \<le> float_sub ext (time ext (readings self)) (last_request_time self) \<longrightarrow>
      (\<forall>d \<in> set (drop (length (sleeps self)) (sleeps (rate_limit ext self))).
         d \<le> request_delay)) \<and>
   call_deepseek_api ext p n self =
     (map_option strip (post ext (requests self) p n),
      (rate_limit ext self)\<lparr>requests := requests self + 1\<rparr>)"
  by (auto simp: rate_limit_def call_deepseek_api_def Let_def)

theorem rate_limit_blocks_witness:
  "sleeps (rate_limit demo_ext (demo_enhancer\<lparr>last_request_time := 1 / 4, readings := 1\<rparr>)) = [1 / 4] \<and>
   (1 / 4 :: real) \<le> request_delay \<and>
   sleeps (rate_limit demo_ext (demo_enhancer\<lparr>readings := 3\<rparr>)) = [] \<and>
   last_request_time (rate_limit demo_ext (demo_enhancer\<lparr>readings := 3\<rparr>)) = 4"
proof -
  have arith: "\<forall>a b. 0 \<le> b \<longrightarrow> float_sub demo_ext a b \<le> a"
    by (simp add: demo_ext_def)
  have elapsed: "float_sub demo_ext (time demo_ext 1) (1 / 4) = 3 / 4"
    by (simp add: demo_ext_def)
  show ?thesis
    using rate_limit_blocks [of demo_ext "demo_enhancer\<lparr>last_request_time := 1 / 4, readings := 1\<rparr>"]
      rate_limit_blocks [of demo_ext "demo_enhancer\<lparr>readings := 3\<rparr>"] arith elapsed
    by (simp add: demo_enhancer_def demo_ext_def request_delay_def)
qed

text \<open>
  Claim C8 as stated: the clock read 10 at the previous request and reads 3 now, and the
  sleep is 8 seconds, longer than the interval.
\<close>

theorem rate_limit_counterexample:
  "sleeps (rate_limit demo_ext (demo_enhancer\<lparr>last_request_time := 10, readings := 3\<rparr>)) = [8] \<and>
   request_delay < 8"
  by (simp add: rate_limit_def demo_enhancer_def demo_ext_def request_delay_def)

lemma find_from_found:
  "find_from k c s = r \<Longrightarrow> 0 \<le> k \<Longrightarrow> 0 \<le> r \<Longrightarrow>
   k \<le> r \<and> nat (r - k) < length s \<and> s ! nat (r - k) = c"
proof (induction s arbitrary: k)
  case Nil
  then show ?case by simp
next
  case (Cons x xs)
  show ?case
  proof (cases "x = c")
    case True
    with Cons.prems show ?thesis by simp
  next
    case False
    with Cons.prems have "find_from (k + 1) c xs = r"
      by simp
    from Cons.IH [OF this] Cons.prems have
      "k + 1 \<le> r \<and> nat (r - (k + 1)) < length xs \<and> xs ! nat (r - (k + 1)) = c"
      by simp
    moreover from this have "nat (r - k) = Suc (nat (r - (k + 1)))"
      by linarith
    ultimately show ?thesis by simp
  qed
qed

lemma find_char_found:
  assumes "0 \<le> find_char c s"
  shows "nat (find_char c s) < length s \<and> s ! nat (find_char c s) = c"
  using find_from_found [of 0 c s "find_char c s"] assms by (simp add: find_char_def)

lemma rfind_char_found:
  assumes "0 \<le> rfind_char c s"
  shows "nat (rfind_char c s) < length s \<and> s ! nat (rfind_char c s) = c"
proof -
  let ?r = "find_from 0 c (rev s)"
  have nonneg: "0 \<le> ?r"
    using assms by (auto simp: rfind_char_def Let_def split: if_splits)
  with find_from_found [of 0 c "rev s" ?r] have r: "nat ?r < length s" "rev s ! nat ?r = c"
    by simp_all
  have val: "rfind_char c s = int (length s) - 1 - ?r"
    using nonneg by (simp add: rfind_char_def Let_def)
  then have idx: "nat (rfind_char c s) = length s - Suc (nat ?r)"
    using nonneg r(1) by linarith
  have "s ! (length s - Suc (nat ?r)) = rev s ! nat ?r"
    using r(1) by (simp add: rev_nth)
  with r idx show ?thesis by simp
qed

lemma extract_slice_invalid:
  assumes none: "no_valid_structure ext opening closing response"
    and neq: "opening \<noteq> closing"
    and start: "0 \<le> find_char opening response"
    and order: "find_char opening response < rfind_char closing response + 1"
  shows "isl (json_loads ext (slice (find_char opening response)
           (rfind_char closing response + 1) response))"
proof -
  let ?i = "find_char opening response" and ?j = "rfind_char closing response"
  have j0: "0 \<le> ?j"
    using start order by simp
  note i = find_char_found [OF start] and j = rfind_char_found [OF j0]
  have "nat ?i \<noteq> nat ?j"
    using i j neq by auto
  then have "nat ?i < nat ?j"
    using order start j0 by linarith
  with none i j have "isl (json_loads ext (slice (int (nat ?i)) (int (nat ?j) + 1) response))"
    unfolding no_valid_structure_def by blast
  then show ?thesis
    using start j0 by simp
qed

lemma extract_object_no_structure:
  assumes "no_valid_structure ext 123 125 response"
  shows "extract_object ext response = Inr (JObj []) \<or>
         (\<exists>e. extract_object ext response = Inl e \<and> e \<noteq> JSONDecodeError \<and> e \<noteq> ValueError \<and>
           json_loads ext (slice (find_char 123 response) (rfind_char 125 response + 1) response)
             = Inl e)"
  using extract_slice_invalid [OF assms]
  by (cases "json_loads ext (slice (find_char 123 response) (rfind_char 125 response + 1) response)")
    (auto simp: extract_object_def Let_def)

lemma extract_array_no_structure:
  assumes "no_valid_structure ext 91 93 response"
  shows "extract_array ext response = Inr (JArr []) \<or>
         (\<exists>e. extract_array ext response = Inl e \<and> e \<noteq> JSONDecodeError \<and> e \<noteq> ValueError \<and>
           json_loads ext (slice (find_char 91 response) (rfind_char 93 response + 1) response)
             = Inl e)"
  using extract_slice_invalid [OF assms]
  by (cases "json_loads ext (slice (find_char 91 response) (rfind_char 93 response + 1) response)")
    (auto simp: extract_array_def Let_def)

lemma deep_strip: "strip deep_brackets = deep_brackets"
proof -
  have 1: "dropWhile isspace deep_brackets = deep_brackets"
    by (simp add: dropWhile_eq_self_iff deep_brackets_def hd_append isspace_def)
  have 2: "dropWhile isspace (rev deep_brackets) = rev deep_brackets"
    by (simp add: dropWhile_eq_self_iff deep_brackets_def u_def isspace_def)
  show ?thesis
    by (simp add: strip_def 1 2)
qed

lemma deep_find: "find_char 91 deep_brackets = 0"
proof -
  have eq: "deep_brackets = 91 # (replicate 999 91 @ u ''x]'')"
    by (simp add: deep_brackets_def flip: replicate_Suc)
  show ?thesis
    unfolding find_char_def by (subst eq) simp
qed

lemma deep_rfind: "rfind_char 93 deep_brackets + 1 = 1002"
  by (simp add: rfind_char_def deep_brackets_def u_def)

lemma deep_slice: "slice 0 1002 deep_brackets = deep_brackets"
  by (simp add: slice_def deep_brackets_def u_def)

lemma malformed_output_caught:
  assumes caught: "\<forall>s e. json_loads ext s = Inl e \<longrightarrow> e = JSONDecodeError \<or> e = ValueError"
  shows "(fst (call_deepseek_api ext (PronunciationPrompt w) 1000 self) = Some response \<and>
          no_valid_structure ext 123 125 response \<longrightarrow>
            fst (enhance_missing_pronunciation ext w self) = Inr (JObj [])) \<and>
         (fst (call_deepseek_api ext (GrammarPrompt w) 1000 self) = Some response \<and>
          no_valid_structure ext 123 125 response \<longrightarrow>
            fst (enhance_missing_grammar_info ext w self) = Inr (JObj [])) \<and>
         (fst (call_deepseek_api ext (ExamplesPrompt w vi) 800 self) = Some response \<and>
          no_valid_structure ext 91 93 response \<longrightarrow>
            fst (enhance_missing_examples ext w vi self) = Inr (JArr []))"
proof -
  have obj: "extract_object ext r = Inr (JObj [])" if "no_valid_structure ext 123 125 r" for r
    using extract_object_no_structure [OF that] caught by blast
  have arr: "extract_array ext r = Inr (JArr [])" if "no_valid_structure ext 91 93 r" for r
    using extract_array_no_structure [OF that] caught by blast
  show ?thesis
    by (auto simp: enhance_missing_pronunciation_def enhance_missing_grammar_info_def
        enhance_missing_examples_def obj arr split: prod.splits option.splits)
qed


text \<open>
  Claim C5. A response with no valid bracketed structure is to give an empty result and no
  exception. That is so where \<open>json.loads\<close> raises what the \<open>except\<close> clause names
  (\<open>malformed_output_caught\<close>). On \<open>deep_brackets\<close>, which holds no valid structure,
  \<open>json.loads\<close> raises \<open>RecursionError\<close>, which the clause does not name, and
  \<open>enhance_missing_examples\<close> raises it.
\<close>

theorem malformed_output_raises:
  "no_valid_structure deep_ext 91 93 deep_brackets \<and>
   fst (call_deepseek_api deep_ext (ExamplesPrompt ni_hao []) 800 demo_enhancer) =
     Some deep_brackets \<and>
   fst (enhance_missing_examples deep_ext ni_hao [] demo_enhancer) = Inl RecursionError"
proof -
  have "no_valid_structure deep_ext 91 93 deep_brackets"
    by (simp add: no_valid_structure_def deep_ext_def)
  moreover have call: "fst (call_deepseek_api deep_ext (ExamplesPrompt ni_hao []) 800 demo_enhancer) =
      Some deep_brackets"
    by (simp add: call_deepseek_api_def deep_ext_def Let_def deep_strip)
  moreover have "extract_array deep_ext deep_brackets = Inl RecursionError"
    by (simp add: extract_array_def deep_find deep_rfind deep_slice deep_ext_def Let_def)
  moreover have "deep_brackets \<noteq> []"
    by (simp add: deep_brackets_def)
  ultimately show ?thesis
    by (auto simp: enhance_missing_examples_def split: prod.splits option.splits)
qed

text \<open>
  The response has an opening bracket at position 0 and a closing bracket at position 1001, and
  the text between them is one that \<open>json.loads\<close> does not turn into a value: the
  condition on the response is met by a pair of brackets that is there.
\<close>

theorem malformed_output_raises_witness:
  "deep_brackets ! 0 = 91 \<and> deep_brackets ! 1001 = 93 \<and>
   isl (json_loads deep_ext (slice 0 1002 deep_brackets)) \<and>
   fst (enhance_missing_examples deep_ext ni_hao [] demo_enhancer) = Inl RecursionError"
proof -
  have len: "(1001::nat) < length deep_brackets"
    by (simp add: deep_brackets_def u_def)
  have first: "deep_brackets ! 0 = 91"
    by (simp add: deep_brackets_def nth_append)
  have last: "deep_brackets ! 1001 = 93"
    by (simp add: deep_brackets_def nth_append u_def)
  from malformed_output_raises
  have none: "no_valid_structure deep_ext 91 93 deep_brackets"
    and raised: "fst (enhance_missing_examples deep_ext ni_hao [] demo_enhancer) = Inl RecursionError"
    by simp_all
  from none len first last
  have "isl (json_loads deep_ext (slice (int 0) (int 1001 + 1) deep_brackets))"
    unfolding no_valid_structure_def by (metis zero_less_numeral)
  then have "isl (json_loads deep_ext (slice 0 1002 deep_brackets))"
    by simp
  with first last raised show ?thesis
    by simp
qed


subsection \<open>Enrichment Scheduler\<close>

lemma order_key_le: "order_key a \<le> order_key b \<longleftrightarrow> ranked_before a b"
  by (auto simp: order_key_def ranked_before_def split: option.splits)

lemma needs_enhancement_lacks:
  "needs_enhancement r \<longleftrightarrow> lacks (zhuyin r) \<or> lacks (vi_meaning r) \<or> lacks (hanviet_reading r)"
  by (auto simp: needs_enhancement_def filled_def lacks_def)

text \<open>
  Claim C7, as the code has it. For a limit that sqlite3 can bind, the candidate query
  returns the beginning of the list of all entries that lack zhuyin, translation or
  Han-Viet reading, ordered by descending frequency rank, entries without a rank last, and
  then by ascending row id: \<open>rest\<close> is what the cap cuts off. For \<open>0 \<le> limit\<close> it returns
  \<open>limit\<close> entries, or all of them when there are fewer; a negative limit is no cap and it
  returns all of them.
\<close>

theorem selection:
  assumes "- (2 ^ 63) \<le> limit" and "limit < 2 ^ 63"
  shows "\<exists>res rest.
     find_entries_needing_enhancement limit rows = Inr res \<and>
     mset (res @ rest) =
       mset (filter (\<lambda>r. lacks (zhuyin r) \<or> lacks (vi_meaning r) \<or> lacks (hanviet_reading r))
               rows) \<and>
     sorted_wrt ranked_before (res @ rest) \<and>
     length res =
       (if limit < 0
        then length (filter (\<lambda>r. lacks (zhuyin r) \<or> lacks (vi_meaning r)
                                    \<or> lacks (hanviet_reading r)) rows)
        else min (nat limit)
               (length (filter (\<lambda>r. lacks (zhuyin r) \<or> lacks (vi_meaning r)
                                        \<or> lacks (hanviet_reading r)) rows)))"
proof -
  let ?P = "\<lambda>r. lacks (zhuyin r) \<or> lacks (vi_meaning r) \<or> lacks (hanviet_reading r)"
  have P: "needs_enhancement = ?P"
    by (rule ext) (rule needs_enhancement_lacks)
  let ?L = "sort_key order_key (filter ?P rows)"
  define res where "res = (if limit < 0 then ?L else take (nat limit) ?L)"
  define rest where "rest = (if limit < 0 then [] else drop (nat limit) ?L)"
  have run: "find_entries_needing_enhancement limit rows = Inr res"
    using assms
    by (simp add: find_entries_needing_enhancement_def sql_limit_def sql_int_def bind_err_def
        res_def P)
  have app: "res @ rest = ?L"
    by (simp add: res_def rest_def)
  have "sorted (map order_key ?L)"
    by (rule sorted_sort_key)
  then have "sorted_wrt (\<lambda>a b. order_key a \<le> order_key b) ?L"
    by (simp add: sorted_map)
  then have sorted: "sorted_wrt ranked_before ?L"
    by (simp add: order_key_le)
  have perm: "mset ?L = mset (filter ?P rows)"
    by simp
  have len: "length res =
      (if limit < 0 then length (filter ?P rows) else min (nat limit) (length (filter ?P rows)))"
    by (auto simp: res_def)
  have "find_entries_needing_enhancement limit rows = Inr res \<and>
      mset (res @ rest) = mset (filter ?P rows) \<and> sorted_wrt ranked_before (res @ rest) \<and>
      length res =
        (if limit < 0 then length (filter ?P rows) else min (nat limit) (length (filter ?P rows)))"
    using run sorted perm len by (simp only: app)
  then show ?thesis by blast
qed

theorem selection_witness:
  "- (2 ^ 63) \<le> (2::int) \<and> (2::int) < 2 ^ 63 \<and>
   map_sum id (map id_col) (find_entries_needing_enhancement 2 (conn demo_enhancer)) = Inr [2, 1] \<and>
   (\<exists>res. find_entries_needing_enhancement 2 (conn demo_enhancer) = Inr res \<and> length res = 2)"
proof -
  have count: "length (filter (\<lambda>r. lacks (zhuyin r) \<or> lacks (vi_meaning r) \<or> lacks (hanviet_reading r))
      (conn demo_enhancer)) = 4"
    by (simp add: demo_enhancer_def scenario_entry_def lacks_def)
  have "\<exists>res. find_entries_needing_enhancement 2 (conn demo_enhancer) = Inr res \<and> length res = 2"
    using selection [of 2 "conn demo_enhancer"] count by auto
  moreover have "map_sum id (map id_col) (find_entries_needing_enhancement 2 (conn demo_enhancer)) =
      Inr [2, 1]"
    by (simp add: demo_enh_simps)
  ultimately show ?thesis by simp
qed

text \<open>
  Claim C7 as stated, the identity of an entry being its \<open>word\<close>: of two entries of equal
  rank the query returns the one with the smaller id first, here the one with the greater
  word.
\<close>

theorem selection_counterexample:
  "find_entries_needing_enhancement 10 tie_rows = Inr tie_rows \<and>
   map word tie_rows = [[22909], [20320]] \<and>
   \<not> sorted_wrt claimed_before tie_rows"
  by (simp add: tie_rows_def find_entries_needing_enhancement_def sql_limit_def sql_int_def
      bind_err_def needs_enhancement_def filled_def order_key_def scenario_entry_def
      claimed_before_def)

lemma selection_overflow:
  "limit < - (2 ^ 63) \<or> 2 ^ 63 \<le> limit \<Longrightarrow>
   find_entries_needing_enhancement limit rows = Inl OverflowError"
  by (auto simp: find_entries_needing_enhancement_def sql_limit_def sql_int_def bind_err_def)


lemma process_batch_bounds:
  "process_batch ext max_entries es (self, c, t) = (self', c', t') \<Longrightarrow>
   0 \<le> c \<Longrightarrow> c \<le> t \<Longrightarrow> t \<le> max_entries \<Longrightarrow>
   0 \<le> c' \<and> c' \<le> t' \<and> t' \<le> max_entries"
proof (induction es arbitrary: self c t)
  case Nil
  then show ?case by simp
next
  case (Cons e es)
  show ?case
  proof (cases "t \<ge> max_entries")
    case True
    with Cons.prems show ?thesis by simp
  next
    case False
    obtain res s' where res: "enhance_entry ext e self = (res, s')"
      by (cases "enhance_entry ext e self")
    show ?thesis
    proof (cases res)
      case (Inl err)
      with Cons.prems False res have
        "process_batch ext max_entries es (s', c, t + 1) = (self', c', t')"
        by simp
      from Cons.IH [OF this] Cons.prems False show ?thesis by simp
    next
      case (Inr ok)
      with Cons.prems False res have
        "process_batch ext max_entries es (s', if ok then c + 1 else c, t + 1) = (self', c', t')"
        by simp
      from Cons.IH [OF this] Cons.prems False show ?thesis by simp
    qed
  qed
qed

lemma find_entries_in_range:
  assumes "- (2 ^ 63) \<le> batch_size" and "batch_size < 2 ^ 63"
  shows "\<exists>entries. find_entries_needing_enhancement batch_size rows = Inr entries"
  using assms
  by (simp add: find_entries_needing_enhancement_def sql_limit_def sql_int_def bind_err_def)

lemma enhance_loop_bounds:
  "enhance_loop ext batch_size max_entries (self, c, t) = (res, self') \<Longrightarrow>
   - (2 ^ 63) \<le> batch_size \<Longrightarrow> batch_size < 2 ^ 63 \<Longrightarrow>
   0 \<le> c \<Longrightarrow> c \<le> t \<Longrightarrow> t \<le> max_entries \<Longrightarrow>
   \<exists>c' t'. res = Inr (c', t') \<and> 0 \<le> c' \<and> c' \<le> t' \<and> t' \<le> max_entries \<and>
     (t' = max_entries \<or> find_entries_needing_enhancement batch_size (conn self') = Inr [])"
proof (induction ext batch_size max_entries "(self, c, t)" arbitrary: self c t
    rule: enhance_loop.induct)
  case (1 ext batch_size max_entries self c t)
  obtain entries where entries:
    "find_entries_needing_enhancement batch_size (conn self) = Inr entries"
    using find_entries_in_range [OF "1.prems"(2,3)] by blast
  show ?case
  proof (cases "t < max_entries \<and> entries \<noteq> []")
    case False
    with "1.prems" entries show ?thesis
      by (auto simp: enhance_loop.simps [of ext batch_size max_entries self c t]
          split: if_splits)
  next
    case True
    obtain s1 c1 t1 where step: "process_batch ext max_entries entries (self, c, t) = (s1, c1, t1)"
      by (cases "process_batch ext max_entries entries (self, c, t)")
    have b1: "0 \<le> c1 \<and> c1 \<le> t1 \<and> t1 \<le> max_entries"
      using process_batch_bounds [OF step] "1.prems" by simp
    have "enhance_loop ext batch_size max_entries (s1, c1, t1) = (res, self')"
      using "1.prems"(1) True entries
      by (simp add: enhance_loop.simps [of ext batch_size max_entries self c t] step)
    from "1.hyps" [OF _ entries _ step this] True b1 "1.prems"(2,3) show ?thesis
      by simp
  qed
qed

text \<open>
  Claim C4, as the code has it. \<open>enhance_loop\<close> is a total function: its termination proof
  shows that each pass of the \<open>while\<close> loop that finds candidates raises \<open>total_processed\<close>.
  For a batch size that sqlite3 can bind and a budget \<open>0 \<le> max_entries\<close>, \<open>enhance_batch\<close>
  returns a count, on every store and however many candidates remain: at most \<open>max_entries\<close>
  entries were processed, the count lies between 0 and the number processed, and the loop
  ends with the budget used up or with no candidate left.
\<close>

theorem batch_termination:
  assumes "0 \<le> max_entries" and "- (2 ^ 63) \<le> batch_size" and "batch_size < 2 ^ 63"
  shows "\<exists>self' enhanced_count total_processed.
           enhance_loop ext batch_size max_entries (self, 0, 0) =
             (Inr (enhanced_count, total_processed), self') \<and>
           enhance_batch ext batch_size max_entries self = (Inr enhanced_count, self') \<and>
           total_processed \<le> max_entries \<and>
           0 \<le> enhanced_count \<and> enhanced_count \<le> total_processed \<and>
           (total_processed = max_entries \<or>
            find_entries_needing_enhancement batch_size (conn self') = Inr [])"
proof -
  obtain res self' where run:
    "enhance_loop ext batch_size max_entries (self, 0, 0) = (res, self')"
    by (cases "enhance_loop ext batch_size max_entries (self, 0, 0)")
  from enhance_loop_bounds [OF run assms(2,3)] assms(1) obtain c' t' where *:
    "res = Inr (c', t')" "0 \<le> c'" "c' \<le> t'" "t' \<le> max_entries"
    "t' = max_entries \<or> find_entries_needing_enhancement batch_size (conn self') = Inr []"
    by auto
  have "enhance_batch ext batch_size max_entries self = (Inr c', self')"
    by (simp add: enhance_batch_def run *)
  with run * show ?thesis
    by blast
qed

theorem batch_termination_witness:
  "(0::int) \<le> 3 \<and> - (2 ^ 63) \<le> (2::int) \<and> (2::int) < 2 ^ 63 \<and>
   length (filter needs_enhancement (conn demo_enhancer)) = 4 \<and>
   fst (enhance_batch demo_ext 2 3 demo_enhancer) = Inr 2 \<and>
   fst (enhance_loop demo_ext 2 3 (demo_enhancer, 0, 0)) = Inr (2, 3)"
proof -
  have loop: "fst (enhance_loop demo_ext 2 3 (demo_enhancer, 0, 0)) = Inr (2, 3)"
    by (simp add: enhance_loop.simps demo_enh_simps)
  moreover have "length (filter needs_enhancement (conn demo_enhancer)) = 4"
    by (simp add: demo_enh_simps)
  moreover have "fst (enhance_batch demo_ext 2 3 demo_enhancer) = Inr 2"
    using batch_termination [of 3 2 demo_ext demo_enhancer] loop by auto
  ultimately show ?thesis
    by simp
qed

text \<open>
  Claim C4 as stated: with the batch size \<open>2 ^ 63\<close> and the budget 1 the first query raises
  \<open>OverflowError\<close>, outside every \<open>try\<close>, and \<open>enhance_batch\<close> returns no count.
\<close>

theorem batch_termination_counterexample:
  "(1::int) \<le> 2 ^ 63 \<and> (0::int) \<le> 1 \<and>
   enhance_batch demo_ext (2 ^ 63) 1 demo_enhancer = (Inl OverflowError, demo_enhancer)"
  by (simp add: enhance_batch_def enhance_loop.simps find_entries_needing_enhancement_def
      sql_limit_def sql_int_def bind_err_def)

subsection \<open>Non-destructive merge\<close>

lemma pronunciation_updates_keys:
  assumes "pronunciation_updates entry pronunciation_data = Inr updates"
    and "(c, v) \<in> set updates"
  shows "c = Czhuyin \<or> c = Chanviet_reading \<or> (c = Cpinyin \<and> \<not> filled (pinyin entry))"
  using assms
  by (auto simp: pronunciation_updates_def bind_err_def split: sum.splits if_splits)

lemma pronunciation_step_keys:
  assumes "pronunciation_step ext entry self = (Inr updates, self')"
    and "(c, v) \<in> set updates"
  shows "c = Czhuyin \<or> c = Chanviet_reading \<or> (c = Cpinyin \<and> \<not> filled (pinyin entry))"
  using assms pronunciation_updates_keys [of entry _ updates c v]
  by (auto simp: pronunciation_step_def split: if_splits prod.splits sum.splits)

lemma vietnamese_step_keys:
  assumes "vietnamese_step ext entry updates self = (updates', self')"
  shows "set updates' \<subseteq> set updates \<union> {x. fst x = Cvi_meaning \<and> \<not> filled (vi_meaning entry)}"
  using assms by (auto simp: vietnamese_step_def split: if_splits prod.splits)

lemma examples_step_keys:
  assumes "examples_step ext entry updates self = (Inr updates', self')"
  shows "set updates' \<subseteq> set updates \<union> {x. fst x = Cexamples \<and> \<not> filled (examples entry)}"
  using assms by (auto simp: examples_step_def split: if_splits prod.splits sum.splits)

lemma grammar_step_keys:
  assumes "grammar_step ext entry updates self = (Inr updates', self')"
  shows "set updates' \<subseteq> set updates \<union> {x. fst x = Cgrammar_info \<and> \<not> filled (grammar_info entry)}"
  using assms by (auto simp: grammar_step_def split: if_splits prod.splits sum.splits)

lemma compute_updates_keys:
  assumes "compute_updates ext entry self = (Inr updates, self')"
    and "(c, v) \<in> set updates"
  shows "c = Czhuyin \<or> c = Chanviet_reading \<or> \<not> filled (get_column c entry)"
proof -
  from assms(1) obtain updates1 self1 updates2 self2 updates3 self3 where steps:
    "pronunciation_step ext entry self = (Inr updates1, self1)"
    "vietnamese_step ext entry updates1 self1 = (updates2, self2)"
    "examples_step ext entry updates2 self2 = (Inr updates3, self3)"
    "grammar_step ext entry updates3 self3 = (Inr updates, self')"
    by (auto simp: compute_updates_def split: prod.splits sum.splits)
  have "set updates \<subseteq> set updates1 \<union>
      {x. fst x = Cvi_meaning \<and> \<not> filled (vi_meaning entry)} \<union>
      {x. fst x = Cexamples \<and> \<not> filled (examples entry)} \<union>
      {x. fst x = Cgrammar_info \<and> \<not> filled (grammar_info entry)}"
    using vietnamese_step_keys [OF steps(2)] examples_step_keys [OF steps(3)]
      grammar_step_keys [OF steps(4)] by blast
  with assms(2) pronunciation_step_keys [OF steps(1)] show ?thesis
    by fastforce
qed

lemma get_set_column_other: "c \<noteq> c' \<Longrightarrow> get_column c (set_column c' v r) = get_column c r"
  by (cases c; cases c') simp_all

lemma apply_updates_untouched:
  "c \<notin> fst ` set updates \<Longrightarrow> get_column c (apply_updates updates r) = get_column c r"
  unfolding apply_updates_def
  by (induction updates arbitrary: r) (auto simp: get_set_column_other)

lemma enhance_entry_with_cedict_keys:
  assumes "enhance_entry_with_cedict ext main_entry ce = Inr updates"
    and "(c, v) \<in> set updates"
  shows "c = Ccedict_definitions \<or> blank (get_column c main_entry)"
  using assms
  by (auto simp: enhance_entry_with_cedict_def Let_def split: if_splits sum.splits)

text \<open>
  Claim C1, as the code has it. The patch of \<open>enhance_entry_with_cedict\<close> names \<open>en_meaning\<close>,
  \<open>pinyin\<close>, \<open>traditional\<close> or \<open>simplified\<close> only where the entry's field is NULL, empty or
  blank, so applying it leaves every such field that holds text as it is; the sidecar
  \<open>cedict_definitions\<close> is not guarded. The patch of \<open>enhance_entry\<close> names \<open>pinyin\<close>,
  \<open>vi_meaning\<close>, \<open>examples\<close> or \<open>grammar_info\<close> only where the entry's field is NULL or empty.
  Nothing is stated here about \<open>zhuyin\<close> and \<open>hanviet_reading\<close>.
\<close>

theorem patch_fills_only_missing:
  "(\<forall>patch. enhance_entry_with_cedict ext main_entry ce = Inr patch \<longrightarrow>
      (\<forall>(c, v) \<in> set patch. c \<noteq> Ccedict_definitions \<longrightarrow> blank (get_column c main_entry)) \<and>
      (\<forall>c. c \<noteq> Ccedict_definitions \<and> \<not> blank (get_column c main_entry) \<longrightarrow>
         get_column c (apply_updates patch main_entry) = get_column c main_entry)) \<and>
   (\<forall>updates self'. compute_updates ext entry self = (Inr updates, self') \<longrightarrow>
      (\<forall>(c, v) \<in> set updates.
         c \<noteq> Czhuyin \<and> c \<noteq> Chanviet_reading \<longrightarrow> \<not> filled (get_column c entry)))"
proof (intro conjI allI impI)
  fix patch
  assume patch: "enhance_entry_with_cedict ext main_entry ce = Inr patch"
  show "\<forall>(c, v) \<in> set patch. c \<noteq> Ccedict_definitions \<longrightarrow> blank (get_column c main_entry)"
    using enhance_entry_with_cedict_keys [OF patch] by blast
  fix c
  assume c: "c \<noteq> Ccedict_definitions \<and> \<not> blank (get_column c main_entry)"
  then have "c \<notin> fst ` set patch"
    using enhance_entry_with_cedict_keys [OF patch] by fastforce
  then show "get_column c (apply_updates patch main_entry) = get_column c main_entry"
    by (rule apply_updates_untouched)
next
  fix updates self'
  assume "compute_updates ext entry self = (Inr updates, self')"
  then show "\<forall>(c, v) \<in> set updates.
      c \<noteq> Czhuyin \<and> c \<noteq> Chanviet_reading \<longrightarrow> \<not> filled (get_column c entry)"
    using compute_updates_keys by blast
qed


theorem patch_fills_only_missing_witness:
  "enhance_entry_with_cedict demo_ext stale_entry (scenario_source 1 (u ''[\"hello\"]'') []) =
     Inr [(Cpinyin, u ''ni3 hao3''), (Ccedict_definitions, u ''[\"hello\"]'')] \<and>
   blank (get_column Cpinyin stale_entry) \<and>
   \<not> blank (get_column Cen_meaning stale_entry) \<and>
   get_column Cen_meaning
     (apply_updates [(Cpinyin, u ''ni3 hao3''), (Ccedict_definitions, u ''[\"hello\"]'')]
        stale_entry) = Some (u ''greeting'') \<and>
   fst (compute_updates demo_ext (scenario_entry 3) demo_enhancer) =
     Inr [(Cvi_meaning, JStr (u ''xin chao''))] \<and>
   \<not> filled (get_column Cvi_meaning (scenario_entry 3))"
proof -
  let ?patch = "[(Cpinyin, u ''ni3 hao3''), (Ccedict_definitions, u ''[\"hello\"]'')]"
  have patch: "enhance_entry_with_cedict demo_ext stale_entry
      (scenario_source 1 (u ''[\"hello\"]'') []) = Inr ?patch"
    by (simp add: stale_entry_def demo_ext_def scenario_entry_def scenario_source_def
        enhance_entry_with_cedict_def blank_def u_def ni_hao_def strip_def isspace_def)
  note T = patch_fills_only_missing [of demo_ext stale_entry
      "scenario_source 1 (u ''[\"hello\"]'') []" "scenario_entry 3" demo_enhancer]
  have "(Cpinyin, u ''ni3 hao3'') \<in> set ?patch"
    by simp
  then have "blank (get_column Cpinyin stale_entry)"
    using T patch by blast
  moreover have filled_en: "\<not> blank (get_column Cen_meaning stale_entry)"
    by (simp add: stale_entry_def scenario_entry_def blank_def u_def strip_def isspace_def)
  then have "get_column Cen_meaning (apply_updates ?patch stale_entry) =
      get_column Cen_meaning stale_entry"
    using T patch by blast
  then have "get_column Cen_meaning (apply_updates ?patch stale_entry) = Some (u ''greeting'')"
    by (simp add: stale_entry_def scenario_entry_def)
  moreover have computed: "fst (compute_updates demo_ext (scenario_entry 3) demo_enhancer) =
      Inr [(Cvi_meaning, JStr (u ''xin chao''))]"
    by (simp add: demo_enh_simps)
  then have "compute_updates demo_ext (scenario_entry 3) demo_enhancer =
      (Inr [(Cvi_meaning, JStr (u ''xin chao''))],
       snd (compute_updates demo_ext (scenario_entry 3) demo_enhancer))"
    by (metis prod.collapse)
  then have "\<not> filled (get_column Cvi_meaning (scenario_entry 3))"
    using T by fastforce
  ultimately show ?thesis
    using patch filled_en computed by blast
qed

text \<open>
  Claim C1 as stated, on the sidecar: the entry holds definitions, and the patch replaces
  them with those of the source entry.
\<close>

theorem patch_counterexample:
  "filled (get_column Ccedict_definitions stale_entry) \<and>
   enhance_entry_with_cedict demo_ext stale_entry (scenario_source 1 (u ''[\"hello\"]'') []) =
     Inr [(Cpinyin, u ''ni3 hao3''), (Ccedict_definitions, u ''[\"hello\"]'')] \<and>
   get_column Ccedict_definitions
     (apply_updates [(Cpinyin, u ''ni3 hao3''), (Ccedict_definitions, u ''[\"hello\"]'')]
        stale_entry)
   \<noteq> get_column Ccedict_definitions stale_entry"
  by (simp add: stale_entry_def demo_ext_def scenario_entry_def scenario_source_def
      enhance_entry_with_cedict_def apply_updates_def blank_def filled_def u_def ni_hao_def
      strip_def isspace_def)

text \<open>
  The two pronunciation fields share one guard, \<open>not entry['zhuyin'] or not
  entry['hanviet_reading']\<close>: when only the Han-Viet reading is missing, a zhuyin reading
  that the API returns replaces the one the entry has.
\<close>

lemma zhuyin_overwritten:
  "filled (zhuyin zhuyin_entry) \<and>
   fst (compute_updates zhuyin_ext zhuyin_entry demo_enhancer) =
     Inr [(Czhuyin, JStr (u ''new''))]"
  by (simp add: zhuyin_entry_def zhuyin_ext_def demo_enh_simps)

end
